theory Spec2Isabelle
  imports Main
begin

section \<open>JavaScript values as the scan pipeline reads them\<close>

text \<open>
  The scan pipeline is TypeScript over values typed \<open>any\<close>. A JSON document is modelled
  by the properties the program reads from it, and a value that may be \<open>undefined\<close> or
  \<open>null\<close> carries that possibility in its type. Numbers are the small integers the
  program counts with, so \<open>int\<close> and \<open>nat\<close> are exact.
\<close>

datatype 'a nullable = Undefined | Null | Val 'a

datatype JsError = TypeError string | SyntaxError string | NetworkError string

fun errorMessage :: "JsError \<Rightarrow> string" where
  "errorMessage (TypeError m) = m"
| "errorMessage (SyntaxError m) = m"
| "errorMessage (NetworkError m) = m"

text \<open>\<open>v || d\<close> on a string that may be missing: the empty string is falsy too.\<close>

definition truthy :: "string nullable \<Rightarrow> bool" where
  "truthy v = (case v of Val s \<Rightarrow> s \<noteq> [] | _ \<Rightarrow> False)"

definition orDefault :: "string nullable \<Rightarrow> string \<Rightarrow> string" where
  "orDefault v d = (case v of Val s \<Rightarrow> (if s = [] then d else s) | _ \<Rightarrow> d)"

text \<open>\<open>xs?.length || 0\<close> on an array that may be missing.\<close>

definition lengthOr0 :: "'a list nullable \<Rightarrow> nat" where
  "lengthOr0 v = (case v of Val xs \<Rightarrow> length xs | _ \<Rightarrow> 0)"

subsection \<open>Strings\<close>

text \<open>
  \<open>String.prototype.startsWith\<close>, \<open>endsWith\<close>, \<open>includes\<close> (here \<open>includesStr\<close>) and \<open>toLowerCase\<close>.
  Characters are bytes; \<open>toLowerCase\<close> maps the ASCII capitals, which covers every
  literal the program compares against.
\<close>

fun startsWith :: "string \<Rightarrow> string \<Rightarrow> bool" where
  "startsWith s [] = True"
| "startsWith [] (p # ps) = False"
| "startsWith (c # cs) (p # ps) = (c = p \<and> startsWith cs ps)"

definition endsWith :: "string \<Rightarrow> string \<Rightarrow> bool" where
  "endsWith s t = startsWith (rev s) (rev t)"

fun includesStr :: "string \<Rightarrow> string \<Rightarrow> bool" where
  "includesStr [] t = (t = [])"
| "includesStr (c # cs) t = (startsWith (c # cs) t \<or> includesStr cs t)"

definition lowerChar :: "char \<Rightarrow> char" where
  "lowerChar c =
     (case map_of (zip ''ABCDEFGHIJKLMNOPQRSTUVWXYZ'' ''abcdefghijklmnopqrstuvwxyz'') c of
        Some l \<Rightarrow> l
      | None \<Rightarrow> c)"

definition toLowerCase :: "string \<Rightarrow> string" where
  "toLowerCase s = map lowerChar s"

text \<open>\<open>s.replace(/\s+/g, '_')\<close>: every maximal run of white space becomes one underscore.\<close>

definition isSpace :: "char \<Rightarrow> bool" where
  "isSpace c = (c \<in> set [CHR '' '', CHR 0x09, CHR 0x0A, CHR 0x0B, CHR 0x0C, CHR 0x0D])"

fun replaceSpaces :: "string \<Rightarrow> string" where
  "replaceSpaces [] = []"
| "replaceSpaces [c] = (if isSpace c then ''_'' else [c])"
| "replaceSpaces (c # d # cs) =
     (if isSpace c then (if isSpace d then replaceSpaces (d # cs) else CHR ''_'' # replaceSpaces (d # cs))
      else c # replaceSpaces (d # cs))"

text \<open>\<open>Number.prototype.toString(radix)\<close> on a non-negative integer, for radix 10 and 36.\<close>

definition digitChar :: "nat \<Rightarrow> char" where
  "digitChar d = ''0123456789abcdefghijklmnopqrstuvwxyz'' ! d"

function toStringRadix :: "nat \<Rightarrow> nat \<Rightarrow> string" where
  "toStringRadix b n =
     (if b < 2 \<or> n < b then [digitChar n]
      else toStringRadix b (n div b) @ [digitChar (n mod b)])"
  by pat_completeness auto
termination
  by (relation "measure snd") auto

declare toStringRadix.simps [simp del]

section \<open>Data model\<close>

datatype Severity = High | Medium | Low

record AffectedObject =
  ao_type :: string
  ao_id :: string
  ao_name :: string

text \<open>
  \<open>SecurityIssue\<close>, with the fields the scan generator writes. The optional
  \<open>recommendation\<close>, \<open>details\<close>, \<open>canAutoFix\<close>, \<open>category\<close> and \<open>title\<close> of the interface are
  never written on a stored issue of this shape and are left out.
\<close>

record SecurityIssue =
  si_id :: string
  si_type :: string
  si_severity :: Severity
  si_affectedObject :: AffectedObject
  si_description :: string
  si_impact :: "string nullable"
  si_remediation :: "string nullable"
  si_status :: "string nullable"
  si_isRealData :: "bool nullable"
  si_affectedItems :: "string list nullable"

record SeverityCount =
  sc_High :: nat
  sc_Medium :: nat
  sc_Low :: nat

record ScanSummary =
  ss_id :: string
  ss_timestamp :: string
  ss_tenantId :: string
  ss_tenantName :: string
  ss_overallRiskScore :: int
  ss_issueCountsByCategory :: "(string \<times> nat) list"
  ss_issueCountsBySeverity :: SeverityCount
  ss_totalAccountsScanned :: nat
  ss_totalGroupsScanned :: nat
  ss_totalPoliciesScanned :: nat
  ss_totalDevicesScanned :: nat
  ss_totalMailboxesScanned :: nat

text \<open>An element of a dataset returned by the remote API, by the properties read from it.\<close>

record Item =
  it_userPrincipalName :: "string nullable"
  it_isMfaEnabled :: "bool nullable"
  it_forwardTo :: "string nullable"
  it_mailbox :: "string nullable"
  it_displayName :: "string nullable"

type_synonym dataset = "Item list nullable"

record RawData =
  rd_users :: dataset
  rd_groups :: dataset
  rd_policies :: dataset
  rd_mailRules :: dataset
  rd_devices :: dataset
  rd_licenses :: dataset
  rd_roles :: dataset

record ScanData =
  sd_summary :: ScanSummary
  sd_issues :: "SecurityIssue list"
  sd_apiErrors :: "string list"
  sd_usesRealData :: bool
  sd_rawData :: RawData

section \<open>The remote API boundary\<close>

text \<open>
  A response body is a JSON document; the program reads its \<open>error.message\<close> (on a
  failure) and its \<open>value\<close> array (on a success).
\<close>

record ErrorObj =
  eo_message :: "string nullable"

record Payload =
  p_error :: "ErrorObj nullable"
  p_value :: dataset

record GraphApiResponse =
  success :: bool
  data :: "Payload nullable"
  error :: "string nullable"
  statusCode :: "nat nullable"

section \<open>Scan generation\<close>

subsection \<open>Issue normalizer\<close>

definition principalNames :: "string \<Rightarrow> Item list \<Rightarrow> string list" where
  "principalNames unknown us = map (\<lambda>u. orDefault (it_userPrincipalName u) unknown) us"

definition riskyUsersIssues :: "nat \<Rightarrow> dataset \<Rightarrow> SecurityIssue list" where
  "riskyUsersIssues now riskyUsers =
     (case riskyUsers of
        Val us \<Rightarrow>
          (if length us > 0 then
             [\<lparr> si_id = ''risky_users_'' @ toStringRadix 10 now,
                si_type = ''Risky Users Detected'',
                si_severity = High,
                si_affectedObject = \<lparr> ao_type = ''User'', ao_id = ''multiple'', ao_name = ''Multiple Users'' \<rparr>,
                si_description = ''Multiple user accounts have been flagged as risky'',
                si_impact = Val ''Potential account compromise or suspicious activity'',
                si_remediation = Val ''Review user activity and reset credentials if necessary'',
                si_status = Val ''Open'',
                si_isRealData = Val True,
                si_affectedItems = Val (principalNames ''Unknown User'' us) \<rparr>]
           else [])
      | _ \<Rightarrow> [])"

definition mfaTruthy :: "bool nullable \<Rightarrow> bool" where
  "mfaTruthy v = (case v of Val b \<Rightarrow> b | _ \<Rightarrow> False)"

definition mfaIssues :: "nat \<Rightarrow> dataset \<Rightarrow> SecurityIssue list" where
  "mfaIssues now mfaStatus =
     (case mfaStatus of
        Val us \<Rightarrow>
          (if length us > 0 then
             (let usersWithoutMFA = filter (\<lambda>u. \<not> mfaTruthy (it_isMfaEnabled u)) us in
              if length usersWithoutMFA > 0 then
                [\<lparr> si_id = ''mfa_disabled_'' @ toStringRadix 10 now,
                   si_type = ''MFA Not Configured'',
                   si_severity = High,
                   si_affectedObject = \<lparr> ao_type = ''User'', ao_id = ''multiple'', ao_name = ''Multiple Users'' \<rparr>,
                   si_description = ''Multiple user accounts do not have Multi-Factor Authentication enabled'',
                   si_impact = Val ''Increased risk of account compromise'',
                   si_remediation = Val ''Enable Multi-Factor Authentication for these users'',
                   si_status = Val ''Open'',
                   si_isRealData = Val True,
                   si_affectedItems = Val (principalNames ''Unknown User'' usersWithoutMFA) \<rparr>]
              else [])
           else [])
      | _ \<Rightarrow> [])"

definition inactiveUsersIssues :: "nat \<Rightarrow> dataset \<Rightarrow> SecurityIssue list" where
  "inactiveUsersIssues now inactiveUsers =
     (case inactiveUsers of
        Val us \<Rightarrow>
          (if length us > 0 then
             [\<lparr> si_id = ''inactive_users_'' @ toStringRadix 10 now,
                si_type = ''Inactive Accounts'',
                si_severity = Medium,
                si_affectedObject = \<lparr> ao_type = ''User'', ao_id = ''multiple'', ao_name = ''Multiple Users'' \<rparr>,
                si_description = ''Multiple user accounts have been inactive for an extended period'',
                si_impact = Val ''Potential security risk from unused accounts'',
                si_remediation = Val ''Review and disable or delete inactive accounts'',
                si_status = Val ''Open'',
                si_isRealData = Val True,
                si_affectedItems = Val (principalNames ''Unknown User'' us) \<rparr>]
           else [])
      | _ \<Rightarrow> [])"

text \<open>
  The filter of the forwarding detector:
  \<open>rule.forwardTo && !rule.forwardTo.endsWith(tenantName || '')\<close>. The tenant's domain
  is the tenant name handed to the generator; without one the suffix is empty, and every
  address ends with it.
\<close>

definition isExternalForward :: "string nullable \<Rightarrow> Item \<Rightarrow> bool" where
  "isExternalForward tenantName rule =
     (case it_forwardTo rule of
        Val a \<Rightarrow> a \<noteq> [] \<and> \<not> endsWith a (orDefault tenantName [])
      | _ \<Rightarrow> False)"

definition mailboxNames :: "Item list \<Rightarrow> string list" where
  "mailboxNames rules = map (\<lambda>r. orDefault (it_mailbox r) ''Unknown Mailbox'') rules"

definition forwardingIssues :: "nat \<Rightarrow> string nullable \<Rightarrow> dataset \<Rightarrow> SecurityIssue list" where
  "forwardingIssues now tenantName emailForwarding =
     (case emailForwarding of
        Val rules \<Rightarrow>
          (if length rules > 0 then
             (let externalForwarding = filter (isExternalForward tenantName) rules in
              if length externalForwarding > 0 then
                [\<lparr> si_id = ''forwarding_rules_'' @ toStringRadix 10 now,
                   si_type = ''External Email Forwarding'',
                   si_severity = Medium,
                   si_affectedObject = \<lparr> ao_type = ''Mailbox'', ao_id = ''multiple'', ao_name = ''Multiple Mailboxes'' \<rparr>,
                   si_description = ''Multiple mailboxes have rules forwarding emails to external addresses'',
                   si_impact = Val ''Potential data leakage through email forwarding'',
                   si_remediation = Val ''Review and remove unauthorized forwarding rules'',
                   si_status = Val ''Open'',
                   si_isRealData = Val True,
                   si_affectedItems = Val (mailboxNames externalForwarding) \<rparr>]
              else [])
           else [])
      | _ \<Rightarrow> [])"

text \<open>The keyword classifier of failed endpoints; the first matching keyword wins.\<close>

definition errorType :: "string \<Rightarrow> string" where
  "errorType e =
     (if includesStr e ''identityProtection'' then ''Identity Protection''
      else if includesStr e ''mailFolders'' then ''Mail Settings''
      else if includesStr e ''security'' then ''Security Settings''
      else if includesStr e ''subscribedSkus'' then ''License Management''
      else ''API Access'')"

text \<open>
  The accumulator of the \<open>reduce\<close> is an object keyed by error type; \<open>Object.entries\<close>
  lists its keys in insertion order. It is an association list: a key seen before keeps
  its place and gets the endpoint appended, a new key goes to the end.
\<close>

fun pushError :: "(string \<times> string list) list \<Rightarrow> string \<Rightarrow> string \<Rightarrow> (string \<times> string list) list" where
  "pushError [] t e = [(t, [e])]"
| "pushError ((k, es) # acc) t e =
     (if k = t then (k, es @ [e]) # acc else (k, es) # pushError acc t e)"

definition errorsByType :: "string list \<Rightarrow> (string \<times> string list) list" where
  "errorsByType apiErrors = foldl (\<lambda>acc e. pushError acc (errorType e) e) [] apiErrors"

definition apiErrorIssue :: "nat \<Rightarrow> string \<times> string list \<Rightarrow> SecurityIssue" where
  "apiErrorIssue now entry =
     (case entry of (t, endpoints) \<Rightarrow>
       \<lparr> si_id = ''api_error_'' @ replaceSpaces (toLowerCase t) @ ''_'' @ toStringRadix 10 now,
          si_type = t @ '' Access Required'',
          si_severity = Medium,
          si_affectedObject = \<lparr> ao_type = ''Policy'', ao_id = ''multiple'', ao_name = t \<rparr>,
          si_description = ''Unable to access '' @ toLowerCase t @ '' settings due to insufficient permissions'',
          si_impact = Val ''Limited visibility into security settings and potential risks'',
          si_remediation = Val ''Grant necessary permissions to access these security settings'',
          si_status = Val ''Open'',
          si_isRealData = Val True,
          si_affectedItems = Val endpoints \<rparr>)"

definition apiErrorIssues :: "nat \<Rightarrow> string list \<Rightarrow> SecurityIssue list" where
  "apiErrorIssues now apiErrors =
     (if length apiErrors > 0 then map (apiErrorIssue now) (errorsByType apiErrors) else [])"

definition guestUsersIssues :: "nat \<Rightarrow> dataset \<Rightarrow> SecurityIssue list" where
  "guestUsersIssues now guestUsers =
     (case guestUsers of
        Val us \<Rightarrow>
          (if length us > 0 then
             [\<lparr> si_id = ''guest_users_'' @ toStringRadix 10 now,
                si_type = ''Guest User Access'',
                si_severity = Low,
                si_affectedObject = \<lparr> ao_type = ''User'', ao_id = ''multiple'', ao_name = ''Multiple Guest Users'' \<rparr>,
                si_description = ''Multiple external guest users have access to tenant resources'',
                si_impact = Val ''Potential security risk from external access'',
                si_remediation = Val ''Review guest user access and remove if unnecessary'',
                si_status = Val ''Open'',
                si_isRealData = Val True,
                si_affectedItems = Val (principalNames ''Unknown Guest'' us) \<rparr>]
           else [])
      | _ \<Rightarrow> [])"

subsection \<open>The result bag of the collector\<close>

text \<open>
  The flat bag returned by \<open>fetchMicrosoftGraphData\<close>, keyed by dataset name. The bag of
  the \<open>catch\<close> branch has only \<open>success\<close>, \<open>apiErrors\<close> and \<open>error\<close>; every dataset is
  \<open>Undefined\<close> there.
\<close>

record GraphResult =
  gr_success :: bool
  gr_apiErrors :: "string list"
  gr_error :: "string nullable"
  gr_users :: dataset
  gr_tenantInfo :: "Item nullable"
  gr_inactiveUsers :: dataset
  gr_mfaStatus :: dataset
  gr_groups :: dataset
  gr_passwordNeverExpires :: dataset
  gr_riskyUsers :: dataset
  gr_emailForwarding :: dataset
  gr_privilegedRoles :: dataset
  gr_guestUsers :: dataset
  gr_sharedMailboxes :: dataset
  gr_deviceCompliance :: dataset
  gr_conditionalAccess :: dataset
  gr_unusedLicenses :: dataset
  gr_securityDefaults :: "Payload nullable"
  gr_authStrengthPolicies :: "Payload nullable"
  gr_namedLocations :: dataset
  gr_legacyAuthStatus :: "Payload nullable"
  gr_passwordResetPolicy :: "Payload nullable"
  gr_administrativeUnits :: dataset
  gr_pimConfiguration :: "Payload nullable"
  gr_sharePointSharing :: "Payload nullable"
  gr_dlpPolicies :: dataset
  gr_retentionPolicies :: dataset
  gr_organizationSettings :: "Payload nullable"
  gr_defenderForOffice :: "Payload nullable"
  gr_intuneCompliancePolicies :: dataset
  gr_exchangeTransportRules :: dataset
  gr_emailAuthentication :: "Payload nullable"

subsection \<open>Risk scorer and summary\<close>

definition detectIssues :: "nat \<Rightarrow> string nullable \<Rightarrow> GraphResult option \<Rightarrow> SecurityIssue list" where
  "detectIssues now tenantName realData =
     (case realData of
        None \<Rightarrow> []
      | Some rd \<Rightarrow>
          riskyUsersIssues now (gr_riskyUsers rd)
          @ mfaIssues now (gr_mfaStatus rd)
          @ inactiveUsersIssues now (gr_inactiveUsers rd)
          @ forwardingIssues now tenantName (gr_emailForwarding rd)
          @ apiErrorIssues now (gr_apiErrors rd)
          @ guestUsersIssues now (gr_guestUsers rd))"

definition severityCountOf :: "SecurityIssue list \<Rightarrow> SeverityCount" where
  "severityCountOf issues =
     \<lparr> sc_High = length (filter (\<lambda>i. si_severity i = High) issues),
       sc_Medium = length (filter (\<lambda>i. si_severity i = Medium) issues),
       sc_Low = length (filter (\<lambda>i. si_severity i = Low) issues) \<rparr>"

fun bumpCategory :: "(string \<times> nat) list \<Rightarrow> string \<Rightarrow> (string \<times> nat) list" where
  "bumpCategory [] c = [(c, 1)]"
| "bumpCategory ((k, n) # m) c = (if k = c then (k, n + 1) # m else (k, n) # bumpCategory m c)"

definition categoryCountOf :: "SecurityIssue list \<Rightarrow> (string \<times> nat) list" where
  "categoryCountOf issues = foldl (\<lambda>m i. bumpCategory m (ao_type (si_affectedObject i))) [] issues"

definition overallRiskScoreOf :: "SeverityCount \<Rightarrow> int" where
  "overallRiskScoreOf severityCount =
     (let highIssueCount = int (sc_High severityCount);
          mediumIssueCount = int (sc_Medium severityCount);
          lowIssueCount = int (sc_Low severityCount);
          highImpact = - 15 * highIssueCount;
          mediumImpact = - 7 * mediumIssueCount;
          lowImpact = - 3 * lowIssueCount
      in if highIssueCount > 0 \<or> mediumIssueCount > 0 \<or> lowIssueCount > 0
         then max (min (100 + highImpact + mediumImpact + lowImpact) 100) 0
         else 100)"

definition scoreOfIssues :: "SecurityIssue list \<Rightarrow> int" where
  "scoreOfIssues issues = overallRiskScoreOf (severityCountOf issues)"

text \<open>
  \<open>generateScan\<close>. The clock is an input: \<open>now\<close> is what \<open>Date.now()\<close> returns during
  the call, taken to be one value for all its reads, and \<open>isoNow\<close> is
  \<open>new Date().toISOString()\<close>.
\<close>

definition generateScan ::
  "nat \<Rightarrow> string \<Rightarrow> string \<Rightarrow> string \<Rightarrow> string nullable \<Rightarrow> GraphResult option \<Rightarrow> ScanData" where
  "generateScan now isoNow accessToken tenantId tenantName realData =
     (let scanId = ''scan_'' @ toStringRadix 36 now;
          issues = detectIssues now tenantName realData;
          severityCount = severityCountOf issues;
          categoryCount = categoryCountOf issues;
          overallRiskScore = overallRiskScoreOf severityCount;
          summary =
            \<lparr> ss_id = scanId,
              ss_timestamp = isoNow,
              ss_tenantId = tenantId,
              ss_tenantName = orDefault tenantName ''Your Microsoft 365 Tenant'',
              ss_overallRiskScore = overallRiskScore,
              ss_issueCountsByCategory = categoryCount,
              ss_issueCountsBySeverity = severityCount,
              ss_totalAccountsScanned = (case realData of None \<Rightarrow> 0 | Some rd \<Rightarrow> lengthOr0 (gr_users rd)),
              ss_totalGroupsScanned = (case realData of None \<Rightarrow> 0 | Some rd \<Rightarrow> lengthOr0 (gr_groups rd)),
              ss_totalPoliciesScanned =
                (case realData of None \<Rightarrow> 0 | Some rd \<Rightarrow> lengthOr0 (gr_conditionalAccess rd)),
              ss_totalDevicesScanned =
                (case realData of None \<Rightarrow> 0 | Some rd \<Rightarrow> lengthOr0 (gr_deviceCompliance rd)),
              ss_totalMailboxesScanned =
                (case realData of None \<Rightarrow> 0
                 | Some rd \<Rightarrow> lengthOr0 (gr_sharedMailboxes rd) + lengthOr0 (gr_emailForwarding rd)) \<rparr>
      in \<lparr> sd_summary = summary,
           sd_issues = issues,
           sd_apiErrors = (case realData of None \<Rightarrow> [] | Some rd \<Rightarrow> gr_apiErrors rd),
           sd_usesRealData = True,
           sd_rawData =
             (case realData of
                None \<Rightarrow>
                  \<lparr> rd_users = Undefined, rd_groups = Undefined, rd_policies = Undefined,
                    rd_mailRules = Undefined, rd_devices = Undefined, rd_licenses = Undefined,
                    rd_roles = Undefined \<rparr>
              | Some rd \<Rightarrow>
                  \<lparr> rd_users = gr_users rd, rd_groups = gr_groups rd,
                    rd_policies = gr_conditionalAccess rd, rd_mailRules = gr_emailForwarding rd,
                    rd_devices = gr_deviceCompliance rd, rd_licenses = gr_unusedLicenses rd,
                    rd_roles = gr_privilegedRoles rd \<rparr>) \<rparr>)"

text \<open>The score as the specification writes it.\<close>

definition clamp :: "int \<Rightarrow> int \<Rightarrow> int \<Rightarrow> int" where
  "clamp x lo hi = max lo (min hi x)"

definition countSeverity :: "Severity \<Rightarrow> SecurityIssue list \<Rightarrow> nat" where
  "countSeverity s issues = length (filter (\<lambda>i. si_severity i = s) issues)"

section \<open>The single request: \<open>callGraphApi\<close>\<close>

text \<open>
  The network is a function from the request sent to what \<open>fetch\<close> does with it: it
  rejects, or it resolves to a response with a status and a body, and reading the body as
  JSON either throws or gives a document. The request log returned with the response
  records whether \<open>fetch\<close> was called. A truthy \<open>body\<close> argument is given by what
  \<open>JSON.stringify\<close> makes of it: a text, or an exception.
\<close>

record Request =
  rq_url :: string
  rq_method :: string
  rq_authorization :: string
  rq_contentType :: string
  rq_body :: "string nullable"

record HttpResponse =
  hr_status :: nat
  hr_json :: "JsError + Payload nullable"

datatype FetchOutcome = Rejected JsError | Resolved HttpResponse

definition ok :: "HttpResponse \<Rightarrow> bool" where
  "ok r = (200 \<le> hr_status r \<and> hr_status r \<le> 299)"

definition emptyObject :: Payload where
  "emptyObject = \<lparr> p_error = Undefined, p_value = Undefined \<rparr>"

definition graphErrorMessage :: "Payload \<Rightarrow> string" where
  "graphErrorMessage errorData =
     (case p_error errorData of
        Val e \<Rightarrow> orDefault (eo_message e) ''Unknown Graph API error''
      | _ \<Rightarrow> ''Unknown Graph API error'')"

definition requestBody :: "string \<Rightarrow> (JsError + string) nullable \<Rightarrow> JsError + string nullable" where
  "requestBody method body =
     (case body of
        Val b \<Rightarrow>
          (if method = ''POST'' \<or> method = ''PATCH'' \<or> method = ''PUT''
           then (case b of Inl e \<Rightarrow> Inl e | Inr text \<Rightarrow> Inr (Val text))
           else Inr Undefined)
      | _ \<Rightarrow> Inr Undefined)"

definition graphRequest :: "string \<Rightarrow> string \<Rightarrow> string \<Rightarrow> string nullable \<Rightarrow> Request" where
  "graphRequest endpoint accessToken method b =
     \<lparr> rq_url = ''https://graph.microsoft.com/beta'' @ endpoint,
       rq_method = method,
       rq_authorization = ''Bearer '' @ accessToken,
       rq_contentType = ''application/json'',
       rq_body = b \<rparr>"

text \<open>The body of the \<open>try\<close> block: the requests sent, and the value returned or thrown.\<close>

definition callGraphApiTry ::
  "(Request \<Rightarrow> FetchOutcome) \<Rightarrow> string \<Rightarrow> string \<Rightarrow> string \<Rightarrow> (JsError + string) nullable
     \<Rightarrow> Request list \<times> (JsError + GraphApiResponse)" where
  "callGraphApiTry fetch endpoint accessToken method body =
     (case requestBody method body of
        Inl e \<Rightarrow> ([], Inl e)
      | Inr b \<Rightarrow>
          (let request = graphRequest endpoint accessToken method b
           in case fetch request of
                Rejected e \<Rightarrow> ([request], Inl e)
              | Resolved response \<Rightarrow>
                  (if \<not> ok response then
                     (case hr_json response of
                        Inl e \<Rightarrow> ([request], Inl e)
                      | Inr (Val errorData) \<Rightarrow>
                          ([request],
                           Inr \<lparr> success = False, data = Undefined,
                                 error = Val (graphErrorMessage errorData),
                                 statusCode = Val (hr_status response) \<rparr>)
                      | Inr Null \<Rightarrow>
                          ([request], Inl (TypeError ''Cannot read properties of null (reading error)''))
                      | Inr Undefined \<Rightarrow>
                          ([request], Inl (TypeError ''Cannot read properties of undefined (reading error)'')))
                   else if hr_status response = 204 \<or> method = ''DELETE'' then
                     ([request],
                      Inr \<lparr> success = True, data = Val emptyObject, error = Undefined,
                            statusCode = Undefined \<rparr>)
                   else
                     (case hr_json response of
                        Inl e \<Rightarrow> ([request], Inl e)
                      | Inr d \<Rightarrow>
                          ([request],
                           Inr \<lparr> success = True, data = d, error = Undefined,
                                 statusCode = Undefined \<rparr>)))))"

definition callGraphApi ::
  "(Request \<Rightarrow> FetchOutcome) \<Rightarrow> string \<Rightarrow> string \<Rightarrow> string \<Rightarrow> (JsError + string) nullable
     \<Rightarrow> Request list \<times> GraphApiResponse" where
  "callGraphApi fetch endpoint accessToken method body =
     (if accessToken = [] then
        ([], \<lparr> success = False, data = Undefined, error = Val ''No access token provided'',
               statusCode = Val 401 \<rparr>)
      else
        (case callGraphApiTry fetch endpoint accessToken method body of
           (requests, Inr r) \<Rightarrow> (requests, r)
         | (requests, Inl e) \<Rightarrow>
             (requests,
              \<lparr> success = False, data = Undefined, error = Val (errorMessage e),
                statusCode = Val 500 \<rparr>)))"

text \<open>Reading \<open>data.value\<close>: a property access on \<open>undefined\<close> or \<open>null\<close> throws.\<close>

definition valueOfData :: "Payload nullable \<Rightarrow> JsError + dataset" where
  "valueOfData d =
     (case d of
        Val p \<Rightarrow> Inr (p_value p)
      | Null \<Rightarrow> Inl (TypeError ''Cannot read properties of null (reading value)'')
      | Undefined \<Rightarrow> Inl (TypeError ''Cannot read properties of undefined (reading value)''))"

definition valueOrEmpty :: "GraphApiResponse \<Rightarrow> JsError + dataset" where
  "valueOrEmpty r = (if success r then valueOfData (data r) else Inr (Val []))"

text \<open>
  \<open>checkOrganizationSettings\<close>, the wrapper behind position 24 of the batch: two
  requests, whose failures it absorbs; it fails only when its own \<open>try\<close> block throws.
  Its data object \<open>{mobileDefenseSettings, securitySettings}\<close> has neither an \<open>error\<close>
  nor a \<open>value\<close> property.
\<close>

definition checkOrganizationSettings ::
  "(Request \<Rightarrow> FetchOutcome) \<Rightarrow> string \<Rightarrow> Request list \<times> GraphApiResponse" where
  "checkOrganizationSettings fetch accessToken =
     (let (requests1, mdmResponse) =
            callGraphApi fetch ''/deviceManagement/mobileThreatDefenseConnectors'' accessToken ''GET'' Undefined;
          (requests2, securityResponse) =
            callGraphApi fetch ''/security/secureScoreControlProfiles'' accessToken ''GET'' Undefined
      in (requests1 @ requests2,
          case valueOrEmpty mdmResponse of
            Inl e \<Rightarrow>
              \<lparr> success = False, data = Undefined, error = Val (errorMessage e), statusCode = Val 500 \<rparr>
          | Inr mobileDefenseSettings \<Rightarrow>
              (case valueOrEmpty securityResponse of
                 Inl e \<Rightarrow>
                   \<lparr> success = False, data = Undefined, error = Val (errorMessage e),
                     statusCode = Val 500 \<rparr>
               | Inr securitySettings \<Rightarrow>
                   \<lparr> success = True, data = Val emptyObject, error = Undefined,
                     statusCode = Undefined \<rparr>)))"

section \<open>Parallel collector\<close>

text \<open>
  \<open>Promise.all\<close> over the 29 wrappers gives the array \<open>responses\<close>, indexed 0 to 28; every
  wrapper catches its own exceptions, so the array is always complete. It is a function
  of the index here.
\<close>

definition endpointMap :: "(string \<times> nat list) list" where
  "endpointMap =
     [(''users'', [0, 2, 3]),
      (''organization'', [1]),
      (''groups'', [4]),
      (''users/passwordPolicies'', [5]),
      (''identityProtection/riskyUsers'', [6]),
      (''users/mailFolders/messageRules'', [7]),
      (''directoryRoles'', [8]),
      (''users/guestUsers'', [9]),
      (''users/mailboxSettings'', [10]),
      (''deviceManagement/mobileThreatDefenseConnectors'', [11]),
      (''identity/conditionalAccess/policies'', [12]),
      (''subscribedSkus'', [13]),
      (''policies/identitySecurityDefaultsEnforcementPolicy'', [14]),
      (''identity/authenticationStrengthPolicies'', [15]),
      (''identity/conditionalAccess/namedLocations'', [16]),
      (''policies/authenticationMethodsPolicy'', [17, 18]),
      (''administrativeUnits'', [19]),
      (''roleManagement/directory/roleSettings'', [20]),
      (''admin/sharepoint/settings'', [21]),
      (''security/dataLossPreventionPolicies'', [22]),
      (''security/informationProtection/policy/labels'', [23]),
      (''security/threatIntelligence/antiphishPolicies'', [25]),
      (''deviceManagement/deviceCompliancePolicies'', [26]),
      (''admin/exchange/transportRules'', [27]),
      (''domains'', [28])]"

definition collectApiErrors :: "(nat \<Rightarrow> GraphApiResponse) \<Rightarrow> string list" where
  "collectApiErrors responses =
     concat (map (\<lambda>(endpoint, indices).
               concat (map (\<lambda>index.
                         if \<not> success (responses index)
                         then [''graph.microsoft.com/beta/'' @ endpoint] else [])
                       indices))
             endpointMap)"

definition firstOrNull :: "GraphApiResponse \<Rightarrow> JsError + Item nullable" where
  "firstOrNull r =
     (if success r then
        (case valueOfData (data r) of
           Inl e \<Rightarrow> Inl e
         | Inr (Val xs) \<Rightarrow> Inr (case xs of [] \<Rightarrow> Undefined | x # _ \<Rightarrow> Val x)
         | Inr Null \<Rightarrow> Inl (TypeError ''Cannot read properties of null (reading 0)'')
         | Inr Undefined \<Rightarrow> Inl (TypeError ''Cannot read properties of undefined (reading 0)''))
      else Inr Null)"

definition dataOrNull :: "GraphApiResponse \<Rightarrow> Payload nullable" where
  "dataOrNull r = (if success r then data r else Null)"

definition bindE :: "'e + 'a \<Rightarrow> ('a \<Rightarrow> 'e + 'b) \<Rightarrow> 'e + 'b" where
  "bindE m f = (case m of Inl e \<Rightarrow> Inl e | Inr x \<Rightarrow> f x)"

text \<open>
  The object literal of the \<open>try\<close> block, its properties evaluated in the order written;
  the first property access that throws ends it.
\<close>

definition assembleBag :: "(nat \<Rightarrow> GraphApiResponse) \<Rightarrow> JsError + GraphResult" where
  "assembleBag responses =
     bindE (valueOrEmpty (responses 0)) (\<lambda>users.
     bindE (firstOrNull (responses 1)) (\<lambda>tenantInfo.
     bindE (valueOrEmpty (responses 2)) (\<lambda>inactiveUsers.
     bindE (valueOrEmpty (responses 3)) (\<lambda>mfaStatus.
     bindE (valueOrEmpty (responses 4)) (\<lambda>groups.
     bindE (valueOrEmpty (responses 5)) (\<lambda>passwordNeverExpires.
     bindE (valueOrEmpty (responses 6)) (\<lambda>riskyUsers.
     bindE (valueOrEmpty (responses 7)) (\<lambda>emailForwarding.
     bindE (valueOrEmpty (responses 8)) (\<lambda>privilegedRoles.
     bindE (valueOrEmpty (responses 9)) (\<lambda>guestUsers.
     bindE (valueOrEmpty (responses 10)) (\<lambda>sharedMailboxes.
     bindE (valueOrEmpty (responses 11)) (\<lambda>deviceCompliance.
     bindE (valueOrEmpty (responses 12)) (\<lambda>conditionalAccess.
     bindE (valueOrEmpty (responses 13)) (\<lambda>unusedLicenses.
     bindE (valueOrEmpty (responses 16)) (\<lambda>namedLocations.
     bindE (valueOrEmpty (responses 19)) (\<lambda>administrativeUnits.
     bindE (valueOrEmpty (responses 22)) (\<lambda>dlpPolicies.
     bindE (valueOrEmpty (responses 23)) (\<lambda>retentionPolicies.
     bindE (valueOrEmpty (responses 26)) (\<lambda>intuneCompliancePolicies.
     bindE (valueOrEmpty (responses 27)) (\<lambda>exchangeTransportRules.
       Inr \<lparr> gr_success = list_ex (\<lambda>i. success (responses i)) [0 ..< 29],
             gr_apiErrors = collectApiErrors responses,
             gr_error = Undefined,
             gr_users = users,
             gr_tenantInfo = tenantInfo,
             gr_inactiveUsers = inactiveUsers,
             gr_mfaStatus = mfaStatus,
             gr_groups = groups,
             gr_passwordNeverExpires = passwordNeverExpires,
             gr_riskyUsers = riskyUsers,
             gr_emailForwarding = emailForwarding,
             gr_privilegedRoles = privilegedRoles,
             gr_guestUsers = guestUsers,
             gr_sharedMailboxes = sharedMailboxes,
             gr_deviceCompliance = deviceCompliance,
             gr_conditionalAccess = conditionalAccess,
             gr_unusedLicenses = unusedLicenses,
             gr_securityDefaults = dataOrNull (responses 14),
             gr_authStrengthPolicies = dataOrNull (responses 15),
             gr_namedLocations = namedLocations,
             gr_legacyAuthStatus = dataOrNull (responses 17),
             gr_passwordResetPolicy = dataOrNull (responses 18),
             gr_administrativeUnits = administrativeUnits,
             gr_pimConfiguration = dataOrNull (responses 20),
             gr_sharePointSharing = dataOrNull (responses 21),
             gr_dlpPolicies = dlpPolicies,
             gr_retentionPolicies = retentionPolicies,
             gr_organizationSettings = dataOrNull (responses 24),
             gr_defenderForOffice = dataOrNull (responses 25),
             gr_intuneCompliancePolicies = intuneCompliancePolicies,
             gr_exchangeTransportRules = exchangeTransportRules,
             gr_emailAuthentication = dataOrNull (responses 28) \<rparr>))))))))))))))))))))"

definition catchBag :: "JsError \<Rightarrow> GraphResult" where
  "catchBag e =
     \<lparr> gr_success = False, gr_apiErrors = [], gr_error = Val (errorMessage e),
       gr_users = Undefined, gr_tenantInfo = Undefined, gr_inactiveUsers = Undefined,
       gr_mfaStatus = Undefined, gr_groups = Undefined, gr_passwordNeverExpires = Undefined,
       gr_riskyUsers = Undefined, gr_emailForwarding = Undefined, gr_privilegedRoles = Undefined,
       gr_guestUsers = Undefined, gr_sharedMailboxes = Undefined, gr_deviceCompliance = Undefined,
       gr_conditionalAccess = Undefined, gr_unusedLicenses = Undefined,
       gr_securityDefaults = Undefined, gr_authStrengthPolicies = Undefined,
       gr_namedLocations = Undefined, gr_legacyAuthStatus = Undefined,
       gr_passwordResetPolicy = Undefined, gr_administrativeUnits = Undefined,
       gr_pimConfiguration = Undefined, gr_sharePointSharing = Undefined,
       gr_dlpPolicies = Undefined, gr_retentionPolicies = Undefined,
       gr_organizationSettings = Undefined, gr_defenderForOffice = Undefined,
       gr_intuneCompliancePolicies = Undefined, gr_exchangeTransportRules = Undefined,
       gr_emailAuthentication = Undefined \<rparr>"

definition fetchMicrosoftGraphData :: "(nat \<Rightarrow> GraphApiResponse) \<Rightarrow> GraphResult" where
  "fetchMicrosoftGraphData responses =
     (case assembleBag responses of Inr bag \<Rightarrow> bag | Inl e \<Rightarrow> catchBag e)"

section \<open>Snapshot store\<close>

text \<open>
  What \<open>getScanById\<close> hands to the pages: a flattened scan and flattened issues. The
  rendering of a timestamp by \<open>toLocaleString\<close> depends on the browser's locale and is
  kept symbolic.
\<close>

datatype DateText = LocaleString string

record IssueView =
  iv_id :: string
  iv_title :: string
  iv_severity :: Severity
  iv_description :: string
  iv_impact :: string
  iv_recommendation :: "string nullable"
  iv_status :: string
  iv_canAutoFix :: bool
  iv_category :: string
  iv_affectedItems :: "string list"
  iv_isRealData :: "bool nullable"

record ScanView =
  sv_id :: string
  sv_date :: DateText
  sv_securityScore :: int
  sv_highRiskIssues :: nat
  sv_mediumRiskIssues :: nat
  sv_lowRiskIssues :: nat
  sv_issuesFixed :: nat
  sv_usesRealData :: bool
  sv_apiErrors :: "string list"
  sv_issues :: "IssueView list"

record LatestScanData =
  lsd_id :: string
  lsd_date :: string
  lsd_securityScore :: int
  lsd_highRiskIssues :: nat
  lsd_mediumRiskIssues :: nat
  lsd_lowRiskIssues :: nat
  lsd_issuesFixed :: nat
  lsd_securityPostureScore :: int
  lsd_identityAccessScore :: int
  lsd_deviceAppScore :: int
  lsd_dataProtectionScore :: int
  lsd_licenseManagementScore :: int
  lsd_securityPostureIssues :: nat
  lsd_identityAccessIssues :: nat
  lsd_deviceAppIssues :: nat
  lsd_dataProtectionIssues :: nat
  lsd_licenseManagementIssues :: nat
  lsd_usesRealData :: bool
  lsd_issues :: "SecurityIssue list"

text \<open>
  Browser storage holds two families of keys, \<open>scanHistory_<tenantId>\<close> and
  \<open>scan_<scanId>\<close>; no key belongs to both, so each family is a map of its own, from the
  tenant id and from the scan id. \<open>JSON.stringify\<close> followed by \<open>JSON.parse\<close> gives back
  the same properties on these values, so a map holds the value itself.

  Two writers store under \<open>scan_<scanId>\<close>. \<open>startScan\<close> stores a \<open>ScanData\<close>. \<open>fixIssue\<close>
  stores \<open>{summary: {...scan, id, timestamp: scan.date, overallRiskScore:
  scan.securityScore}, issues: updatedIssues}\<close>, where \<open>scan\<close> is the flattened scan: that
  summary has no \<open>issueCountsBySeverity\<close>, and those issues have a \<open>title\<close> and a
  \<open>category\<close> but no \<open>type\<close> and no \<open>affectedObject\<close>.
\<close>

datatype Blob = ScanBlob ScanData | FixedBlob ScanView "IssueView list"

record World =
  w_accessToken :: "string nullable"
  w_tenantId :: "string nullable"
  w_currentScan :: "ScanData option"
  w_scanHistory :: "ScanSummary list"
  w_latestScan :: "LatestScanData option"
  w_historyStore :: "string \<rightharpoonup> ScanSummary list"
  w_scanStore :: "string \<rightharpoonup> Blob"

subsection \<open>Category scores for the dashboard\<close>

record CategoryEntry =
  ce_score :: int
  ce_issues :: nat

record CategoryMappings =
  securityPosture :: CategoryEntry
  identityAccess :: CategoryEntry
  deviceApp :: CategoryEntry
  dataProtection :: CategoryEntry
  licenseManagement :: CategoryEntry

definition securityPostureTypes :: "string list" where
  "securityPostureTypes = [''Policy'', ''SecurityDefaults'', ''ComplianceScore'', ''SecureScore'', ''Organization'']"

definition identityAccessTypes :: "string list" where
  "identityAccessTypes = [''User'', ''Role'', ''Authentication'', ''MFA'', ''Guest'', ''Admin'', ''Identity'']"

definition deviceAppTypes :: "string list" where
  "deviceAppTypes = [''Device'', ''Application'', ''Intune'', ''Endpoint'']"

definition dataProtectionTypes :: "string list" where
  "dataProtectionTypes = [''Mailbox'', ''SharePoint'', ''DLP'', ''Exchange'', ''Email'', ''Domain'']"

definition licenseManagementTypes :: "string list" where
  "licenseManagementTypes = [''License'', ''Subscription'']"

definition categoryMappings :: CategoryMappings where
  "categoryMappings =
     \<lparr> securityPosture = \<lparr> ce_score = 100, ce_issues = 0 \<rparr>,
       identityAccess = \<lparr> ce_score = 100, ce_issues = 0 \<rparr>,
       deviceApp = \<lparr> ce_score = 100, ce_issues = 0 \<rparr>,
       dataProtection = \<lparr> ce_score = 100, ce_issues = 0 \<rparr>,
       licenseManagement = \<lparr> ce_score = 100, ce_issues = 0 \<rparr> \<rparr>"

definition impactScore :: "Severity \<Rightarrow> int" where
  "impactScore severity = (if severity = High then 15 else if severity = Medium then 7 else 3)"

definition matchesTypes :: "string list \<Rightarrow> SecurityIssue \<Rightarrow> bool" where
  "matchesTypes types issue =
     list_ex (\<lambda>t. includesStr (toLowerCase (ao_type (si_affectedObject issue))) (toLowerCase t)
                 \<or> (si_type issue \<noteq> [] \<and> includesStr (toLowerCase (si_type issue)) (toLowerCase t)))
       types"

definition hit :: "int \<Rightarrow> CategoryEntry \<Rightarrow> CategoryEntry" where
  "hit impact v = \<lparr> ce_score = max 0 (ce_score v - impact), ce_issues = ce_issues v + 1 \<rparr>"

text \<open>One round of the \<open>forEach\<close>: the first category whose keywords match takes the issue.\<close>

definition categorize :: "CategoryMappings \<Rightarrow> SecurityIssue \<Rightarrow> CategoryMappings" where
  "categorize m issue =
     (let impact = impactScore (si_severity issue) in
      if matchesTypes securityPostureTypes issue
        then m\<lparr> securityPosture := hit impact (securityPosture m) \<rparr>
      else if matchesTypes identityAccessTypes issue
        then m\<lparr> identityAccess := hit impact (identityAccess m) \<rparr>
      else if matchesTypes deviceAppTypes issue
        then m\<lparr> deviceApp := hit impact (deviceApp m) \<rparr>
      else if matchesTypes dataProtectionTypes issue
        then m\<lparr> dataProtection := hit impact (dataProtection m) \<rparr>
      else if matchesTypes licenseManagementTypes issue
        then m\<lparr> licenseManagement := hit impact (licenseManagement m) \<rparr>
      else m)"

text \<open>
  The issues \<open>convertToLatestScanData\<close> finds under \<open>scan_<id>\<close>: none when the key is
  absent, and an exception at the first issue that has no \<open>affectedObject\<close>.
\<close>

definition storedIssues :: "Blob option \<Rightarrow> JsError + SecurityIssue list" where
  "storedIssues parsedData =
     (case parsedData of
        None \<Rightarrow> Inr []
      | Some (ScanBlob d) \<Rightarrow> Inr (sd_issues d)
      | Some (FixedBlob v is) \<Rightarrow>
          (if is = [] then Inr []
           else Inl (TypeError ''Cannot read properties of undefined (reading type)'')))"

definition storedUsesRealData :: "Blob option \<Rightarrow> bool" where
  "storedUsesRealData parsedData =
     (case parsedData of Some (ScanBlob d) \<Rightarrow> sd_usesRealData d | _ \<Rightarrow> False)"

definition convertToLatestScanData :: "World \<Rightarrow> ScanSummary \<Rightarrow> JsError + LatestScanData" where
  "convertToLatestScanData w summary =
     (let parsedData = w_scanStore w (ss_id summary) in
      case storedIssues parsedData of
        Inl e \<Rightarrow> Inl e
      | Inr issues \<Rightarrow>
          (let m = foldl categorize categoryMappings issues;
               highRiskIssues = length (filter (\<lambda>i. si_severity i = High) issues);
               mediumRiskIssues = length (filter (\<lambda>i. si_severity i = Medium) issues);
               lowRiskIssues = length (filter (\<lambda>i. si_severity i = Low) issues);
               securityScore =
                 (if highRiskIssues > 0 \<or> mediumRiskIssues > 0 \<or> lowRiskIssues > 0 then
                    (let totalImpact =
                           int highRiskIssues * 15 + int mediumRiskIssues * 7 + int lowRiskIssues * 3
                     in max 0 (min 100 (100 - totalImpact)))
                  else ss_overallRiskScore summary)
           in Inr \<lparr> lsd_id = ss_id summary,
                    lsd_date = ss_timestamp summary,
                    lsd_securityScore = securityScore,
                    lsd_highRiskIssues = highRiskIssues,
                    lsd_mediumRiskIssues = mediumRiskIssues,
                    lsd_lowRiskIssues = lowRiskIssues,
                    lsd_issuesFixed = length (filter (\<lambda>i. si_status i = Val ''Fixed'') issues),
                    lsd_securityPostureScore = ce_score (securityPosture m),
                    lsd_identityAccessScore = ce_score (identityAccess m),
                    lsd_deviceAppScore = ce_score (deviceApp m),
                    lsd_dataProtectionScore = ce_score (dataProtection m),
                    lsd_licenseManagementScore = ce_score (licenseManagement m),
                    lsd_securityPostureIssues = ce_issues (securityPosture m),
                    lsd_identityAccessIssues = ce_issues (identityAccess m),
                    lsd_deviceAppIssues = ce_issues (deviceApp m),
                    lsd_dataProtectionIssues = ce_issues (dataProtection m),
                    lsd_licenseManagementIssues = ce_issues (licenseManagement m),
                    lsd_usesRealData = storedUsesRealData parsedData,
                    lsd_issues = issues \<rparr>))"

subsection \<open>Reading a scan back\<close>

definition issueView :: "SecurityIssue \<Rightarrow> IssueView" where
  "issueView issue =
     \<lparr> iv_id = si_id issue,
       iv_title = si_type issue,
       iv_severity = si_severity issue,
       iv_description = si_description issue,
       iv_impact = orDefault (si_impact issue) ''Potential security risk'',
       iv_recommendation = si_remediation issue,
       iv_status = orDefault (si_status issue) ''Open'',
       iv_canAutoFix =
         (si_type issue = ''MFA Disabled'' \<or> si_type issue = ''Inactive Account''
          \<or> si_type issue = ''Weak Spam Filter'' \<or> si_type issue = ''MFA Not Configured''),
       iv_category = toLowerCase (ao_type (si_affectedObject issue)),
       iv_affectedItems =
         ao_name (si_affectedObject issue)
         # (case si_affectedItems issue of Val items \<Rightarrow> items | _ \<Rightarrow> []),
       iv_isRealData = si_isRealData issue \<rparr>"

text \<open>Both branches of \<open>getScanById\<close> build the same object from a \<open>ScanData\<close>.\<close>

definition scanView :: "ScanData \<Rightarrow> ScanView" where
  "scanView scan =
     \<lparr> sv_id = ss_id (sd_summary scan),
       sv_date = LocaleString (ss_timestamp (sd_summary scan)),
       sv_securityScore = ss_overallRiskScore (sd_summary scan),
       sv_highRiskIssues = sc_High (ss_issueCountsBySeverity (sd_summary scan)),
       sv_mediumRiskIssues = sc_Medium (ss_issueCountsBySeverity (sd_summary scan)),
       sv_lowRiskIssues = sc_Low (ss_issueCountsBySeverity (sd_summary scan)),
       sv_issuesFixed = length (filter (\<lambda>i. si_status i = Val ''Fixed'') (sd_issues scan)),
       sv_usesRealData = sd_usesRealData scan,
       sv_apiErrors = sd_apiErrors scan,
       sv_issues = map issueView (sd_issues scan) \<rparr>"

text \<open>
  The part of \<open>getScanById\<close> after the \<open>"latest"\<close> redirection: the scan held in state
  when its id matches, else the stored one. On a snapshot rewritten by \<open>fixIssue\<close> the
  read of \<open>summary.issueCountsBySeverity.High\<close> throws.
\<close>

definition lookupScan :: "World \<Rightarrow> string \<Rightarrow> JsError + ScanView option" where
  "lookupScan w scanId =
     (case (case w_currentScan w of
              Some currentScan \<Rightarrow>
                (if ss_id (sd_summary currentScan) = scanId then Some currentScan else None)
            | None \<Rightarrow> None) of
        Some currentScan \<Rightarrow> Inr (Some (scanView currentScan))
      | None \<Rightarrow>
          (case w_scanStore w scanId of
             Some (ScanBlob parsedScan) \<Rightarrow> Inr (Some (scanView parsedScan))
           | Some (FixedBlob v is) \<Rightarrow>
               Inl (TypeError ''Cannot read properties of undefined (reading High)'')
           | None \<Rightarrow> Inr None))"

text \<open>
  \<open>getScanById\<close> calls itself on the id of the latest scan when asked for \<open>"latest"\<close>; a
  latest scan whose own id is \<open>"latest"\<close> would make it call itself for ever, which is the
  result \<open>None\<close>.
\<close>

partial_function (option) getScanById :: "World \<Rightarrow> string \<Rightarrow> (JsError + ScanView option) option" where
  "getScanById w scanId =
     (if \<not> truthy (w_tenantId w) then Some (Inr None)
      else if scanId = ''latest'' \<and> w_latestScan w \<noteq> None
        then getScanById w (lsd_id (the (w_latestScan w)))
      else Some (lookupScan w scanId))"

text \<open>The id whose scan a call of \<open>getScanById\<close> looks up, after at most one redirection.\<close>

definition resolvedId :: "World \<Rightarrow> string \<Rightarrow> string" where
  "resolvedId w scanId =
     (if scanId = ''latest'' \<and> w_latestScan w \<noteq> None then lsd_id (the (w_latestScan w)) else scanId)"

subsection \<open>Running a scan\<close>

definition displayNameOf :: "Item nullable \<Rightarrow> string nullable" where
  "displayNameOf tenantInfo = (case tenantInfo of Val t \<Rightarrow> it_displayName t | _ \<Rightarrow> Undefined)"

text \<open>
  \<open>startScan\<close>, given the clock and the settled batch of responses. It returns the new
  state and the id of the scan, or \<open>None\<close> where the source returns \<open>null\<close>. Toast
  notifications and the \<open>isScanning\<close> flag are not part of the state here, and a write
  to storage is taken to succeed.
\<close>

definition scanFromBatch ::
  "nat \<Rightarrow> string \<Rightarrow> string \<Rightarrow> string \<Rightarrow> (nat \<Rightarrow> GraphApiResponse) \<Rightarrow> ScanData" where
  "scanFromBatch now isoNow accessToken tenantId responses =
     (let graphResult = fetchMicrosoftGraphData responses
      in generateScan now isoNow accessToken tenantId
           (if gr_success graphResult then displayNameOf (gr_tenantInfo graphResult) else Undefined)
           (if gr_success graphResult then Some graphResult else None))"

text \<open>
  The state updates and the two \<open>localStorage.setItem\<close> calls: the history is the new
  summary before the old history, cut to its first ten entries.
\<close>

definition saveScan :: "World \<Rightarrow> string \<Rightarrow> ScanData \<Rightarrow> World" where
  "saveScan w tenantId scanData =
     (let updatedHistory = take 10 (sd_summary scanData # w_scanHistory w)
      in w\<lparr> w_currentScan := Some scanData,
            w_scanHistory := updatedHistory,
            w_historyStore := (w_historyStore w)(tenantId \<mapsto> updatedHistory),
            w_scanStore := (w_scanStore w)(ss_id (sd_summary scanData) \<mapsto> ScanBlob scanData) \<rparr>)"

definition startScan ::
  "World \<Rightarrow> nat \<Rightarrow> string \<Rightarrow> (nat \<Rightarrow> GraphApiResponse) \<Rightarrow> World \<times> string option" where
  "startScan w now isoNow responses =
     (case (w_accessToken w, w_tenantId w) of
        (Val accessToken, Val tenantId) \<Rightarrow>
          (if accessToken = [] \<or> tenantId = [] then (w, None)
           else
             (let scanData = scanFromBatch now isoNow accessToken tenantId responses;
                  w1 = saveScan w tenantId scanData
              in case convertToLatestScanData w1 (sd_summary scanData) of
                   Inl e \<Rightarrow> (w1, None)
                 | Inr latestScanData \<Rightarrow>
                     (w1\<lparr> w_latestScan :=
                            Some (latestScanData\<lparr> lsd_usesRealData := sd_usesRealData scanData,
                                                  lsd_issues := sd_issues scanData \<rparr>) \<rparr>,
                      Some (ss_id (sd_summary scanData)))))
      | _ \<Rightarrow> (w, None))"

subsection \<open>Issue fixer\<close>

text \<open>
  \<open>fixIssue\<close>. It waits for \<open>getScanById\<close>, so it returns only if that does. An exception
  inside is caught and storage stays as it was. The local \<open>updatedScan\<close>, whose
  \<open>issuesFixed\<close> is one more than the scan's, is neither stored nor returned.
\<close>

definition markFixed :: "string \<Rightarrow> IssueView list \<Rightarrow> IssueView list" where
  "markFixed issueId issues =
     map (\<lambda>issue. if iv_id issue = issueId then issue\<lparr> iv_status := ''Fixed'' \<rparr> else issue) issues"

definition fixIssue :: "World \<Rightarrow> string \<Rightarrow> string \<Rightarrow> World option" where
  "fixIssue w scanId issueId =
     (case getScanById w scanId of
        None \<Rightarrow> None
      | Some (Inl e) \<Rightarrow> Some w
      | Some (Inr None) \<Rightarrow> Some w
      | Some (Inr (Some scan)) \<Rightarrow>
          (case find (\<lambda>issue. iv_id issue = issueId) (sv_issues scan) of
             None \<Rightarrow> Some w
           | Some issueToFix \<Rightarrow>
               (let updatedIssues = markFixed issueId (sv_issues scan)
                in Some (w\<lparr> w_scanStore := (w_scanStore w)(scanId \<mapsto> FixedBlob scan updatedIssues) \<rparr>))))"


section \<open>Concrete inputs\<close>

text \<open>Inputs at which the properties below are evaluated.\<close>

definition okResponse :: GraphApiResponse where
  "okResponse =
     \<lparr> success = True, data = Val \<lparr> p_error = Undefined, p_value = Val [] \<rparr>,
       error = Undefined, statusCode = Undefined \<rparr>"

definition failedResponse :: GraphApiResponse where
  "failedResponse =
     \<lparr> success = False, data = Undefined, error = Val ''Insufficient privileges'',
       statusCode = Val 403 \<rparr>"

definition allSucceed :: "nat \<Rightarrow> GraphApiResponse" where
  "allSucceed = (\<lambda>i. okResponse)"

definition onlyOrganizationSettingsFails :: "nat \<Rightarrow> GraphApiResponse" where
  "onlyOrganizationSettingsFails = (\<lambda>i. if i = 24 then failedResponse else okResponse)"



definition forwardingBag :: GraphResult where
  "forwardingBag =
     (fetchMicrosoftGraphData allSucceed)
       \<lparr> gr_emailForwarding :=
           Val [\<lparr> it_userPrincipalName = Undefined, it_isMfaEnabled = Undefined,
                   it_forwardTo = Val ''eve@elsewhere.example'', it_mailbox = Val ''bob@contoso.com'',
                   it_displayName = Undefined \<rparr>,
                \<lparr> it_userPrincipalName = Undefined, it_isMfaEnabled = Undefined,
                   it_forwardTo = Val ''amy@contoso.com'', it_mailbox = Val ''carl@contoso.com'',
                   it_displayName = Undefined \<rparr>] \<rparr>"

definition exampleSummary :: ScanSummary where
  "exampleSummary =
     \<lparr> ss_id = ''scan_old'', ss_timestamp = ''2024-01-01T00:00:00.000Z'', ss_tenantId = ''tenant-1'',
       ss_tenantName = ''Contoso'', ss_overallRiskScore = 100, ss_issueCountsByCategory = [],
       ss_issueCountsBySeverity = \<lparr> sc_High = 0, sc_Medium = 0, sc_Low = 0 \<rparr>,
       ss_totalAccountsScanned = 0, ss_totalGroupsScanned = 0, ss_totalPoliciesScanned = 0,
       ss_totalDevicesScanned = 0, ss_totalMailboxesScanned = 0 \<rparr>"

definition exampleWorld :: World where
  "exampleWorld =
     \<lparr> w_accessToken = Val ''token'', w_tenantId = Val ''tenant-1'', w_currentScan = None,
       w_scanHistory = replicate 10 exampleSummary, w_latestScan = None,
       w_historyStore = Map.empty, w_scanStore = Map.empty \<rparr>"

definition fixedIssue :: SecurityIssue where
  "fixedIssue =
     \<lparr> si_id = ''mfa_disabled_1000'', si_type = ''MFA Not Configured'', si_severity = High,
       si_affectedObject = \<lparr> ao_type = ''User'', ao_id = ''multiple'', ao_name = ''Multiple Users'' \<rparr>,
       si_description = ''Multiple user accounts do not have Multi-Factor Authentication enabled'',
       si_impact = Undefined, si_remediation = Undefined, si_status = Val ''Fixed'',
       si_isRealData = Val True, si_affectedItems = Val [''bob@contoso.com''] \<rparr>"

definition fixedScan :: ScanData where
  "fixedScan =
     \<lparr> sd_summary = exampleSummary\<lparr> ss_overallRiskScore := 85,
                         ss_issueCountsBySeverity := \<lparr> sc_High = 1, sc_Medium = 0, sc_Low = 0 \<rparr> \<rparr>,
       sd_issues = [fixedIssue], sd_apiErrors = [], sd_usesRealData = True,
       sd_rawData = \<lparr> rd_users = Undefined, rd_groups = Undefined, rd_policies = Undefined,
                      rd_mailRules = Undefined, rd_devices = Undefined, rd_licenses = Undefined,
                      rd_roles = Undefined \<rparr> \<rparr>"

definition storedWorld :: World where
  "storedWorld = exampleWorld\<lparr> w_scanStore := [''scan_old'' \<mapsto> ScanBlob fixedScan] \<rparr>"

definition htmlErrorPage :: "Request \<Rightarrow> FetchOutcome" where
  "htmlErrorPage =
     (\<lambda>request. Resolved \<lparr> hr_status = 404,
                            hr_json = Inl (SyntaxError ''Unexpected token < in JSON at position 0'') \<rparr>)"

definition forbiddenJson :: "Request \<Rightarrow> FetchOutcome" where
  "forbiddenJson =
     (\<lambda>request. Resolved \<lparr> hr_status = 403,
                            hr_json = Inr (Val \<lparr> p_error = Val \<lparr> eo_message = Val ''Insufficient privileges'' \<rparr>,
                                                 p_value = Undefined \<rparr>) \<rparr>)"

definition offline :: "Request \<Rightarrow> FetchOutcome" where
  "offline = (\<lambda>request. Rejected (NetworkError ''Failed to fetch''))"

definition nullBody :: "Request \<Rightarrow> FetchOutcome" where
  "nullBody = (\<lambda>request. Resolved \<lparr> hr_status = 200, hr_json = Inr Null \<rparr>)"

section \<open>Properties of the risk scorer\<close>

lemma some_index: "list_ex (\<lambda>i. True) [0 ..< 29]"
  unfolding list_ex_iff by (rule bexI[of _ 0]) simp_all

lemma allSucceed_bag_fields:
  "gr_success (fetchMicrosoftGraphData allSucceed)"
  "gr_riskyUsers (fetchMicrosoftGraphData allSucceed) = Val []"
  "gr_mfaStatus (fetchMicrosoftGraphData allSucceed) = Val []"
  "gr_inactiveUsers (fetchMicrosoftGraphData allSucceed) = Val []"
  "gr_emailForwarding (fetchMicrosoftGraphData allSucceed) = Val []"
  "gr_guestUsers (fetchMicrosoftGraphData allSucceed) = Val []"
  "gr_apiErrors (fetchMicrosoftGraphData allSucceed) = []"
  by (simp_all add: fetchMicrosoftGraphData_def assembleBag_def allSucceed_def okResponse_def
      bindE_def valueOrEmpty_def valueOfData_def firstOrNull_def collectApiErrors_def endpointMap_def
      some_index)

lemma generateScan_issues:
  "sd_issues (generateScan now isoNow accessToken tenantId tenantName realData)
     = detectIssues now tenantName realData"
  by (simp add: generateScan_def Let_def)

lemma generateScan_score:
  "ss_overallRiskScore (sd_summary (generateScan now isoNow accessToken tenantId tenantName realData))
     = scoreOfIssues (detectIssues now tenantName realData)"
  by (simp add: generateScan_def Let_def scoreOfIssues_def)

lemma scoreOfIssues_clamp:
  "scoreOfIssues issues =
     clamp (100 - 15 * int (countSeverity High issues) - 7 * int (countSeverity Medium issues)
                - 3 * int (countSeverity Low issues)) 0 100"
  by (auto simp add: scoreOfIssues_def overallRiskScoreOf_def severityCountOf_def
        countSeverity_def clamp_def Let_def)

text \<open>
  C1. For every scan that \<open>generateScan\<close> returns, the summary's \<open>overallRiskScore\<close> is
  \<open>clamp(100 - 15*highCount - 7*mediumCount - 3*lowCount, 0, 100)\<close>, the three counts
  being the numbers of High, Medium and Low issues in the issue list of that same scan.
\<close>

theorem C1_overallRiskScore_formula:
  "ss_overallRiskScore (sd_summary (generateScan now isoNow accessToken tenantId tenantName realData)) =
     clamp (100
            - 15 * int (countSeverity High
                         (sd_issues (generateScan now isoNow accessToken tenantId tenantName realData)))
            - 7 * int (countSeverity Medium
                        (sd_issues (generateScan now isoNow accessToken tenantId tenantName realData)))
            - 3 * int (countSeverity Low
                        (sd_issues (generateScan now isoNow accessToken tenantId tenantName realData))))
       0 100"
  by (simp only: generateScan_issues generateScan_score scoreOfIssues_clamp)

text \<open>
  C1 at a scan with one Medium issue (one forwarding rule leaves the tenant): the score
  is 93.
\<close>

theorem C1_overallRiskScore_formula_witness:
  "ss_overallRiskScore (sd_summary (generateScan 1000 ''2024-06-01T00:00:00.000Z'' ''token'' ''tenant-1''
      (Val ''contoso.com'') (Some forwardingBag))) = 93"
proof -
  have "map si_severity (sd_issues (generateScan 1000 ''2024-06-01T00:00:00.000Z'' ''token'' ''tenant-1''
      (Val ''contoso.com'') (Some forwardingBag))) = [Medium]"
    by (simp add: generateScan_issues detectIssues_def forwardingBag_def allSucceed_bag_fields
      riskyUsersIssues_def mfaIssues_def inactiveUsersIssues_def forwardingIssues_def
      guestUsersIssues_def apiErrorIssues_def isExternalForward_def endsWith_def orDefault_def)
  then have "countSeverity High (sd_issues (generateScan 1000 ''2024-06-01T00:00:00.000Z'' ''token'' ''tenant-1''
      (Val ''contoso.com'') (Some forwardingBag))) = 0"
    "countSeverity Medium (sd_issues (generateScan 1000 ''2024-06-01T00:00:00.000Z'' ''token'' ''tenant-1''
      (Val ''contoso.com'') (Some forwardingBag))) = 1"
    "countSeverity Low (sd_issues (generateScan 1000 ''2024-06-01T00:00:00.000Z'' ''token'' ''tenant-1''
      (Val ''contoso.com'') (Some forwardingBag))) = 0"
    by (auto simp: countSeverity_def filter_eq_Cons_iff map_eq_Cons_conv)
  then show ?thesis
    using C1_overallRiskScore_formula[of 1000 "''2024-06-01T00:00:00.000Z''" "''token''" "''tenant-1''"
      "Val ''contoso.com''" "Some forwardingBag"]
    by (simp add: clamp_def)
qed

text \<open>
  C2. The score of a generated scan is the scorer applied to its issue list; for every
  issue list the score lies in [0,100], and one more issue, of any severity and at any
  place in the list, never raises it.
\<close>

theorem C2_score_bounded_monotone:
  "ss_overallRiskScore (sd_summary (generateScan now isoNow accessToken tenantId tenantName realData))
     = scoreOfIssues (sd_issues (generateScan now isoNow accessToken tenantId tenantName realData))
   \<and> 0 \<le> scoreOfIssues issues \<and> scoreOfIssues issues \<le> 100
   \<and> scoreOfIssues (xs @ i # ys) \<le> scoreOfIssues (xs @ ys)"
  by (cases "si_severity i")
     (auto simp: generateScan_issues generateScan_score scoreOfIssues_def overallRiskScoreOf_def
        severityCountOf_def Let_def)

text \<open>C2 at the empty list, at one High issue, and at a second High issue added to it.\<close>

theorem C2_score_bounded_monotone_witness:
  "scoreOfIssues [] = 100 \<and> scoreOfIssues [fixedIssue] = 85
   \<and> scoreOfIssues [fixedIssue, fixedIssue] \<le> scoreOfIssues [fixedIssue]"
  using C2_score_bounded_monotone[of 0 "[]" "[]" "[]" Undefined None "[fixedIssue]" "[fixedIssue]"
      fixedIssue "[]"]
  by (simp add: scoreOfIssues_def overallRiskScoreOf_def severityCountOf_def fixedIssue_def)

section \<open>Properties of the issue normalizer\<close>

lemma not_access_required: "t @ '' Access Required'' \<noteq> ''External Email Forwarding''"
proof
  assume "t @ '' Access Required'' = ''External Email Forwarding''"
  then have "last (t @ '' Access Required'') = last ''External Email Forwarding''" by simp
  then show False by simp
qed

lemma filter_types_risky [simp]:
  "T \<noteq> ''Risky Users Detected'' \<Longrightarrow> filter (\<lambda>i. si_type i = T) (riskyUsersIssues now ds) = []"
  by (auto simp: riskyUsersIssues_def split: nullable.splits)

lemma filter_types_mfa [simp]:
  "T \<noteq> ''MFA Not Configured'' \<Longrightarrow> filter (\<lambda>i. si_type i = T) (mfaIssues now ds) = []"
  by (auto simp: mfaIssues_def Let_def split: nullable.splits)

lemma filter_types_inactive [simp]:
  "T \<noteq> ''Inactive Accounts'' \<Longrightarrow> filter (\<lambda>i. si_type i = T) (inactiveUsersIssues now ds) = []"
  by (auto simp: inactiveUsersIssues_def split: nullable.splits)

lemma filter_types_forwarding [simp]:
  "T \<noteq> ''External Email Forwarding'' \<Longrightarrow>
     filter (\<lambda>i. si_type i = T) (forwardingIssues now tenantName ds) = []"
  by (auto simp: forwardingIssues_def Let_def split: nullable.splits)

lemma filter_types_guest [simp]:
  "T \<noteq> ''Guest User Access'' \<Longrightarrow> filter (\<lambda>i. si_type i = T) (guestUsersIssues now ds) = []"
  by (auto simp: guestUsersIssues_def split: nullable.splits)

lemma filter_forwarding_apiErrors [simp]:
  "filter (\<lambda>i. si_type i = ''External Email Forwarding'') (apiErrorIssues now es) = []"
  by (auto simp: apiErrorIssues_def apiErrorIssue_def filter_empty_conv not_access_required)

subsection \<open>Failed endpoints\<close>














subsection \<open>Forwarding rules\<close>




section \<open>Properties of the collector\<close>

lemma bindE_Inr: "bindE m f = Inr y \<longleftrightarrow> (\<exists>x. m = Inr x \<and> f x = Inr y)"
  by (cases m) (simp_all add: bindE_def)

lemma bindE_projr: "\<exists>v. m = Inr v \<Longrightarrow> bindE m f = f (projr m)"
  by (auto simp: bindE_def)

lemma valueOrEmpty_failed: "\<not> success r \<Longrightarrow> valueOrEmpty r = Inr v \<longleftrightarrow> v = Val []"
  by (auto simp: valueOrEmpty_def)

lemma firstOrNull_failed: "\<not> success r \<Longrightarrow> firstOrNull r = Inr v \<longleftrightarrow> v = Null"
  by (auto simp: firstOrNull_def)

lemma valueOrEmpty_wellformed:
  "(success r \<longrightarrow> data r \<noteq> Undefined \<and> data r \<noteq> Null) \<Longrightarrow> \<exists>v. valueOrEmpty r = Inr v"
  by (cases "data r") (auto simp: valueOrEmpty_def valueOfData_def)

lemma firstOrNull_wellformed:
  "(success r \<longrightarrow> (\<exists>p xs. data r = Val p \<and> p_value p = Val xs)) \<Longrightarrow> \<exists>v. firstOrNull r = Inr v"
  by (auto simp: firstOrNull_def valueOfData_def)

text \<open>
  When every successful response carries a data object, and the tenant response a
  \<open>value\<close> array, no property access throws: the collector returns the normal bag, with
  the error list of the endpoint loop.
\<close>

lemma collector_normal_path:
  assumes d: "\<And>i. i < 29 \<Longrightarrow> success (responses i)
                \<Longrightarrow> data (responses i) \<noteq> Undefined \<and> data (responses i) \<noteq> Null"
    and t: "success (responses 1) \<Longrightarrow> \<exists>p xs. data (responses 1) = Val p \<and> p_value p = Val xs"
  shows "\<exists>bag. assembleBag responses = Inr bag
           \<and> fetchMicrosoftGraphData responses = bag
           \<and> gr_apiErrors bag = collectApiErrors responses"
proof -
  have V: "\<exists>v. valueOrEmpty (responses i) = Inr v" if "i < 29" for i
    using d[OF that] by (intro valueOrEmpty_wellformed) simp
  have T: "\<exists>v. firstOrNull (responses (Suc 0)) = Inr v"
    using t by (intro firstOrNull_wellformed) simp
  show ?thesis
    by (simp add: fetchMicrosoftGraphData_def assembleBag_def bindE_projr V T)
qed

text \<open>In the normal bag every failed dataset is its empty default, \<open>[]\<close> or \<open>null\<close>.\<close>

lemma failed_datasets_default:
  assumes "assembleBag responses = Inr bag"
  shows "(\<not> success (responses 0) \<longrightarrow> gr_users bag = Val [])
       \<and> (\<not> success (responses 1) \<longrightarrow> gr_tenantInfo bag = Null)
       \<and> (\<not> success (responses 2) \<longrightarrow> gr_inactiveUsers bag = Val [])
       \<and> (\<not> success (responses 3) \<longrightarrow> gr_mfaStatus bag = Val [])
       \<and> (\<not> success (responses 4) \<longrightarrow> gr_groups bag = Val [])
       \<and> (\<not> success (responses 5) \<longrightarrow> gr_passwordNeverExpires bag = Val [])
       \<and> (\<not> success (responses 6) \<longrightarrow> gr_riskyUsers bag = Val [])
       \<and> (\<not> success (responses 7) \<longrightarrow> gr_emailForwarding bag = Val [])
       \<and> (\<not> success (responses 8) \<longrightarrow> gr_privilegedRoles bag = Val [])
       \<and> (\<not> success (responses 9) \<longrightarrow> gr_guestUsers bag = Val [])
       \<and> (\<not> success (responses 10) \<longrightarrow> gr_sharedMailboxes bag = Val [])
       \<and> (\<not> success (responses 11) \<longrightarrow> gr_deviceCompliance bag = Val [])
       \<and> (\<not> success (responses 12) \<longrightarrow> gr_conditionalAccess bag = Val [])
       \<and> (\<not> success (responses 13) \<longrightarrow> gr_unusedLicenses bag = Val [])
       \<and> (\<not> success (responses 14) \<longrightarrow> gr_securityDefaults bag = Null)
       \<and> (\<not> success (responses 15) \<longrightarrow> gr_authStrengthPolicies bag = Null)
       \<and> (\<not> success (responses 16) \<longrightarrow> gr_namedLocations bag = Val [])
       \<and> (\<not> success (responses 17) \<longrightarrow> gr_legacyAuthStatus bag = Null)
       \<and> (\<not> success (responses 18) \<longrightarrow> gr_passwordResetPolicy bag = Null)
       \<and> (\<not> success (responses 19) \<longrightarrow> gr_administrativeUnits bag = Val [])
       \<and> (\<not> success (responses 20) \<longrightarrow> gr_pimConfiguration bag = Null)
       \<and> (\<not> success (responses 21) \<longrightarrow> gr_sharePointSharing bag = Null)
       \<and> (\<not> success (responses 22) \<longrightarrow> gr_dlpPolicies bag = Val [])
       \<and> (\<not> success (responses 23) \<longrightarrow> gr_retentionPolicies bag = Val [])
       \<and> (\<not> success (responses 24) \<longrightarrow> gr_organizationSettings bag = Null)
       \<and> (\<not> success (responses 25) \<longrightarrow> gr_defenderForOffice bag = Null)
       \<and> (\<not> success (responses 26) \<longrightarrow> gr_intuneCompliancePolicies bag = Val [])
       \<and> (\<not> success (responses 27) \<longrightarrow> gr_exchangeTransportRules bag = Val [])
       \<and> (\<not> success (responses 28) \<longrightarrow> gr_emailAuthentication bag = Null)"
  using assms
  by (auto simp: assembleBag_def bindE_Inr valueOrEmpty_failed firstOrNull_failed dataOrNull_def)

lemma some_other_index: "list_ex (\<lambda>i. i \<noteq> 24) [0 ..< 29]"
  unfolding list_ex_iff by (rule bexI[of _ 0]) simp_all

text \<open>
  C9, at the batch in which only \<open>checkOrganizationSettings\<close> (position 24) fails: the
  collector resolves with the normal bag and the dataset is replaced by \<open>null\<close>, but
  \<open>apiErrors\<close> is empty, since \<open>endpointMap\<close> lists no endpoint for position 24.
\<close>

theorem C9_organizationSettings_failure_unrecorded:
  "\<not> success (onlyOrganizationSettingsFails 24)
   \<and> gr_success (fetchMicrosoftGraphData onlyOrganizationSettingsFails)
   \<and> gr_apiErrors (fetchMicrosoftGraphData onlyOrganizationSettingsFails) = []
   \<and> gr_organizationSettings (fetchMicrosoftGraphData onlyOrganizationSettingsFails) = Null"
  by (simp add: fetchMicrosoftGraphData_def assembleBag_def onlyOrganizationSettingsFails_def
      okResponse_def failedResponse_def bindE_def valueOrEmpty_def valueOfData_def firstOrNull_def
      dataOrNull_def collectApiErrors_def endpointMap_def some_other_index)

text \<open>The wrapper at position 24 does fail on some network: a 2xx answer whose body is \<open>null\<close>.\<close>

lemma checkOrganizationSettings_can_fail:
  "success (snd (checkOrganizationSettings nullBody ''token'')) = False"
  by (simp add: checkOrganizationSettings_def callGraphApi_def callGraphApiTry_def requestBody_def
      nullBody_def ok_def Let_def valueOrEmpty_def valueOfData_def)

text \<open>A failure at a position that \<open>endpointMap\<close> lists is recorded under the endpoint's name.\<close>

lemma listed_failure_recorded:
  assumes "(endpoint, indices) \<in> set endpointMap" and "index \<in> set indices"
    and "\<not> success (responses index)"
  shows "''graph.microsoft.com/beta/'' @ endpoint \<in> set (collectApiErrors responses)"
  unfolding collectApiErrors_def using assms by (force simp: set_concat)

section \<open>Properties of \<open>callGraphApi\<close>\<close>

text \<open>
  C10 as stated fails: a 404 response whose body is not JSON makes \<open>response.json()\<close>
  throw inside the \<open>try\<close> block, and the result carries status code 500, not 404.
\<close>

theorem C10_counterexample:
  "htmlErrorPage (graphRequest ''/users'' ''token'' ''GET'' Undefined)
     = Resolved \<lparr> hr_status = 404,
                  hr_json = Inl (SyntaxError ''Unexpected token < in JSON at position 0'') \<rparr>
   \<and> statusCode (snd (callGraphApi htmlErrorPage ''/users'' ''token'' ''GET'' Undefined)) = Val 500"
  by (simp add: callGraphApi_def callGraphApiTry_def requestBody_def htmlErrorPage_def ok_def Let_def)

text \<open>
  C10, amended. \<open>callGraphApi\<close> returns a response for every network, endpoint, token,
  HTTP method and body, having called \<open>fetch\<close> at most once, and a response that is not a
  success carries a status code. With an empty token it returns success=false with
  status code 401 and sends nothing. A non-2xx response whose body parses to a JSON value
  other than \<open>null\<close> gives success=false with that response's status code. Every
  exception (a body that cannot be serialised, a rejected \<open>fetch\<close>, a body that does not
  parse, a non-2xx response whose body is \<open>null\<close>) gives success=false with status code
  500.
\<close>

theorem C10_callGraphApi_outcomes:
  "(accessToken = [] \<longrightarrow>
      callGraphApi fetch endpoint accessToken method body
        = ([], \<lparr> success = False, data = Undefined, error = Val ''No access token provided'',
                 statusCode = Val 401 \<rparr>))
   \<and> (accessToken \<noteq> [] \<and> requestBody method body = Inr b
        \<and> fetch (graphRequest endpoint accessToken method b) = Resolved response
        \<and> \<not> ok response \<and> hr_json response = Inr (Val errorData) \<longrightarrow>
      callGraphApi fetch endpoint accessToken method body
        = ([graphRequest endpoint accessToken method b],
           \<lparr> success = False, data = Undefined, error = Val (graphErrorMessage errorData),
             statusCode = Val (hr_status response) \<rparr>))
   \<and> (accessToken \<noteq> [] \<and> requestBody method body = Inl e \<longrightarrow>
      callGraphApi fetch endpoint accessToken method body
        = ([], \<lparr> success = False, data = Undefined, error = Val (errorMessage e),
                 statusCode = Val 500 \<rparr>))
   \<and> (accessToken \<noteq> [] \<and> requestBody method body = Inr b
        \<and> fetch (graphRequest endpoint accessToken method b) = Rejected e \<longrightarrow>
      callGraphApi fetch endpoint accessToken method body
        = ([graphRequest endpoint accessToken method b],
           \<lparr> success = False, data = Undefined, error = Val (errorMessage e),
             statusCode = Val 500 \<rparr>))
   \<and> (accessToken \<noteq> [] \<and> requestBody method body = Inr b
        \<and> fetch (graphRequest endpoint accessToken method b) = Resolved response
        \<and> hr_json response = Inl e
        \<and> (\<not> ok response \<or> (hr_status response \<noteq> 204 \<and> method \<noteq> ''DELETE'')) \<longrightarrow>
      callGraphApi fetch endpoint accessToken method body
        = ([graphRequest endpoint accessToken method b],
           \<lparr> success = False, data = Undefined, error = Val (errorMessage e),
             statusCode = Val 500 \<rparr>))
   \<and> (accessToken \<noteq> [] \<and> requestBody method body = Inr b
        \<and> fetch (graphRequest endpoint accessToken method b) = Resolved response
        \<and> \<not> ok response \<and> hr_json response = Inr Null \<longrightarrow>
      \<not> success (snd (callGraphApi fetch endpoint accessToken method body))
      \<and> statusCode (snd (callGraphApi fetch endpoint accessToken method body)) = Val 500)
   \<and> length (fst (callGraphApi fetch endpoint accessToken method body)) \<le> 1
   \<and> (success (snd (callGraphApi fetch endpoint accessToken method body))
        \<or> (\<exists>code. statusCode (snd (callGraphApi fetch endpoint accessToken method body)) = Val code))"
  by (auto simp: callGraphApi_def callGraphApiTry_def Let_def
      split: sum.splits FetchOutcome.splits nullable.splits)

text \<open>
  C10, amended, at four calls: an empty token, a 403 with a JSON error body, a network
  that is unreachable, and a 404 with an HTML body.
\<close>

theorem C10_callGraphApi_outcomes_witness:
  "callGraphApi forbiddenJson ''/users'' [] ''GET'' Undefined
     = ([], \<lparr> success = False, data = Undefined, error = Val ''No access token provided'',
              statusCode = Val 401 \<rparr>)
   \<and> callGraphApi forbiddenJson ''/users'' ''token'' ''GET'' Undefined
     = ([graphRequest ''/users'' ''token'' ''GET'' Undefined],
        \<lparr> success = False, data = Undefined, error = Val ''Insufficient privileges'',
          statusCode = Val 403 \<rparr>)
   \<and> callGraphApi offline ''/users'' ''token'' ''GET'' Undefined
     = ([graphRequest ''/users'' ''token'' ''GET'' Undefined],
        \<lparr> success = False, data = Undefined, error = Val ''Failed to fetch'',
          statusCode = Val 500 \<rparr>)
   \<and> callGraphApi htmlErrorPage ''/users'' ''token'' ''GET'' Undefined
     = ([graphRequest ''/users'' ''token'' ''GET'' Undefined],
        \<lparr> success = False, data = Undefined,
          error = Val ''Unexpected token < in JSON at position 0'', statusCode = Val 500 \<rparr>)"
  using
    C10_callGraphApi_outcomes[of "[]" forbiddenJson "''/users''" "''GET''" Undefined]
    C10_callGraphApi_outcomes[of "''token''" forbiddenJson "''/users''" "''GET''" Undefined Undefined
      "\<lparr> hr_status = 403,
         hr_json = Inr (Val \<lparr> p_error = Val \<lparr> eo_message = Val ''Insufficient privileges'' \<rparr>,
                              p_value = Undefined \<rparr>) \<rparr>"
      "\<lparr> p_error = Val \<lparr> eo_message = Val ''Insufficient privileges'' \<rparr>, p_value = Undefined \<rparr>"]
    C10_callGraphApi_outcomes[of "''token''" offline "''/users''" "''GET''" Undefined Undefined _ _
      "NetworkError ''Failed to fetch''"]
    C10_callGraphApi_outcomes[of "''token''" htmlErrorPage "''/users''" "''GET''" Undefined Undefined
      "\<lparr> hr_status = 404,
         hr_json = Inl (SyntaxError ''Unexpected token < in JSON at position 0'') \<rparr>"
      _ "SyntaxError ''Unexpected token < in JSON at position 0''"]
  by (simp add: forbiddenJson_def offline_def htmlErrorPage_def requestBody_def ok_def
      graphErrorMessage_def orDefault_def)

section \<open>Properties of the snapshot store\<close>

text \<open>
  C7. For every scan whose stored issue list is empty (or that has no stored snapshot),
  the conversion for the dashboard succeeds and each of the five category scores is 100.
\<close>

theorem C7_empty_scan_category_scores:
  assumes "storedIssues (w_scanStore w (ss_id summary)) = Inr []"
  shows "\<exists>l. convertToLatestScanData w summary = Inr l
           \<and> lsd_securityPostureScore l = 100
           \<and> lsd_identityAccessScore l = 100
           \<and> lsd_deviceAppScore l = 100
           \<and> lsd_dataProtectionScore l = 100
           \<and> lsd_licenseManagementScore l = 100"
  using assms by (simp add: convertToLatestScanData_def Let_def categoryMappings_def)

text \<open>C7 at a summary whose scan has no stored snapshot.\<close>

theorem C7_empty_scan_category_scores_witness:
  "storedIssues (w_scanStore exampleWorld (ss_id exampleSummary)) = Inr []
   \<and> (\<exists>l. convertToLatestScanData exampleWorld exampleSummary = Inr l
           \<and> lsd_securityPostureScore l = 100
           \<and> lsd_identityAccessScore l = 100
           \<and> lsd_deviceAppScore l = 100
           \<and> lsd_dataProtectionScore l = 100
           \<and> lsd_licenseManagementScore l = 100)"
proof -
  have h: "storedIssues (w_scanStore exampleWorld (ss_id exampleSummary)) = Inr []"
    by (simp add: exampleWorld_def storedIssues_def)
  show ?thesis using h C7_empty_scan_category_scores[OF h] by simp
qed

lemma saveScan_store:
  "w_scanStore (saveScan w tenantId scanData) (ss_id (sd_summary scanData)) = Some (ScanBlob scanData)"
  by (simp add: saveScan_def Let_def)

lemma storedIssues_ScanBlob: "storedIssues (Some (ScanBlob d)) = Inr (sd_issues d)"
  by (simp add: storedIssues_def)

lemma convert_saved:
  "\<exists>l. convertToLatestScanData (saveScan w tenantId scanData) (sd_summary scanData) = Inr l"
  by (simp add: convertToLatestScanData_def Let_def saveScan_store storedIssues_ScanBlob)

lemma startScan_Some:
  assumes "startScan w now isoNow responses = (w', Some scanId)"
  obtains accessToken tenantId l where
    "w_accessToken w = Val accessToken" "accessToken \<noteq> []"
    "w_tenantId w = Val tenantId" "tenantId \<noteq> []"
    "scanId = ss_id (sd_summary (scanFromBatch now isoNow accessToken tenantId responses))"
    "w' = (saveScan w tenantId (scanFromBatch now isoNow accessToken tenantId responses))
            \<lparr> w_latestScan := Some l \<rparr>"
  using assms
  by (auto simp: startScan_def Let_def split: nullable.splits if_splits sum.splits)

text \<open>With a token and a tenant id, \<open>startScan\<close> completes and returns the id of the new scan.\<close>

lemma startScan_completes:
  assumes "w_accessToken w = Val accessToken" "accessToken \<noteq> []"
    "w_tenantId w = Val tenantId" "tenantId \<noteq> []"
  shows "\<exists>w'. startScan w now isoNow responses
           = (w', Some (ss_id (sd_summary (scanFromBatch now isoNow accessToken tenantId responses))))"
proof -
  obtain l where
    "convertToLatestScanData (saveScan w tenantId (scanFromBatch now isoNow accessToken tenantId responses))
        (sd_summary (scanFromBatch now isoNow accessToken tenantId responses)) = Inr l"
    using convert_saved by blast
  then show ?thesis using assms by (simp add: startScan_def Let_def)
qed

lemma scanFromBatch_id:
  "ss_id (sd_summary (scanFromBatch now isoNow accessToken tenantId responses))
     = ''scan_'' @ toStringRadix 36 now"
  by (simp add: scanFromBatch_def generateScan_def Let_def)


lemma getScanById_direct:
  "truthy (w_tenantId w) \<Longrightarrow> \<not> (scanId = ''latest'' \<and> w_latestScan w \<noteq> None)
     \<Longrightarrow> getScanById w scanId = Some (lookupScan w scanId)"
  by (subst getScanById.simps) auto

lemma toStringRadix_1000: "toStringRadix 36 1000 = ''rs''"
  by (simp add: toStringRadix.simps digitChar_def)

lemma exampleWorld_startScan:
  "startScan exampleWorld 1000 ''2024-06-01T00:00:00.000Z'' allSucceed
     = (fst (startScan exampleWorld 1000 ''2024-06-01T00:00:00.000Z'' allSucceed), Some ''scan_rs'')"
proof -
  have "\<exists>w'. startScan exampleWorld 1000 ''2024-06-01T00:00:00.000Z'' allSucceed
          = (w', Some (ss_id (sd_summary (scanFromBatch 1000 ''2024-06-01T00:00:00.000Z'' ''token''
                ''tenant-1'' allSucceed))))"
    by (rule startScan_completes) (simp_all add: exampleWorld_def)
  then show ?thesis by (auto simp: scanFromBatch_id toStringRadix_1000)
qed

text \<open>
  C8. After every completed scan the history persisted for the tenant has at most 10
  summaries: the new scan's summary first, then the first nine of the previous history.
\<close>

theorem C8_history_bounded_ordered:
  assumes "startScan w now isoNow responses = (w', Some scanId)"
  shows "\<exists>tenantId scanData history.
           w_tenantId w = Val tenantId
           \<and> w_scanStore w' scanId = Some (ScanBlob scanData)
           \<and> ss_id (sd_summary scanData) = scanId
           \<and> w_historyStore w' tenantId = Some history
           \<and> length history \<le> 10
           \<and> history = sd_summary scanData # take 9 (w_scanHistory w)"
proof -
  from assms obtain accessToken tenantId l where
    t: "w_tenantId w = Val tenantId"
    and i: "scanId = ss_id (sd_summary (scanFromBatch now isoNow accessToken tenantId responses))"
    and w': "w' = (saveScan w tenantId (scanFromBatch now isoNow accessToken tenantId responses))
                    \<lparr> w_latestScan := Some l \<rparr>"
    by (rule startScan_Some)
  show ?thesis using t i w' by (simp add: saveScan_def Let_def)
qed

text \<open>
  C8 at a state whose history already has ten summaries: the stored history has ten, the
  new one first and nine of the old ones after it.
\<close>

theorem C8_history_bounded_ordered_witness:
  "startScan exampleWorld 1000 ''2024-06-01T00:00:00.000Z'' allSucceed
     = (fst (startScan exampleWorld 1000 ''2024-06-01T00:00:00.000Z'' allSucceed), Some ''scan_rs'')
   \<and> (\<exists>scanData history.
         w_scanStore (fst (startScan exampleWorld 1000 ''2024-06-01T00:00:00.000Z'' allSucceed)) ''scan_rs''
           = Some (ScanBlob scanData)
         \<and> w_historyStore (fst (startScan exampleWorld 1000 ''2024-06-01T00:00:00.000Z'' allSucceed)) ''tenant-1''
           = Some history
         \<and> length history = 10
         \<and> history = sd_summary scanData # replicate 9 exampleSummary)"
proof -
  note h = exampleWorld_startScan
  from C8_history_bounded_ordered[OF h] obtain tenantId scanData history where
    "w_tenantId exampleWorld = Val tenantId"
    "w_scanStore (fst (startScan exampleWorld 1000 ''2024-06-01T00:00:00.000Z'' allSucceed)) ''scan_rs''
       = Some (ScanBlob scanData)"
    "w_historyStore (fst (startScan exampleWorld 1000 ''2024-06-01T00:00:00.000Z'' allSucceed)) tenantId
       = Some history"
    "history = sd_summary scanData # take 9 (w_scanHistory exampleWorld)"
    by blast
  then show ?thesis using h by (auto simp: exampleWorld_def)
qed



section \<open>Properties of the issue fixer\<close>

lemma getScanById_resolved_aux:
  assumes "getScanById w scanId = Some y"
  shows "truthy (w_tenantId w) \<longrightarrow>
       lookupScan w (resolvedId w scanId) = y
       \<and> \<not> (resolvedId w scanId = ''latest'' \<and> w_latestScan w \<noteq> None)"
proof (rule getScanById.raw_induct
    [where P = "\<lambda>w scanId y. truthy (w_tenantId w) \<longrightarrow>
       lookupScan w (resolvedId w scanId) = y
       \<and> \<not> (resolvedId w scanId = ''latest'' \<and> w_latestScan w \<noteq> None)", OF _ assms])
  fix g :: "World \<Rightarrow> string \<Rightarrow> (JsError + ScanView option) option"
  fix w scanId y
  assume IH: "\<And>w scanId y. g w scanId = Some y \<Longrightarrow> truthy (w_tenantId w) \<longrightarrow>
       lookupScan w (resolvedId w scanId) = y
       \<and> \<not> (resolvedId w scanId = ''latest'' \<and> w_latestScan w \<noteq> None)"
  assume body: "(if \<not> truthy (w_tenantId w) then Some (Inr None)
      else if scanId = ''latest'' \<and> w_latestScan w \<noteq> None
           then g w (lsd_id (the (w_latestScan w)))
           else Some (lookupScan w scanId)) = Some y"
  show "truthy (w_tenantId w) \<longrightarrow>
       lookupScan w (resolvedId w scanId) = y
       \<and> \<not> (resolvedId w scanId = ''latest'' \<and> w_latestScan w \<noteq> None)"
  proof (cases "scanId = ''latest'' \<and> w_latestScan w \<noteq> None")
    case True
    show ?thesis
    proof
      assume tr: "truthy (w_tenantId w)"
      with body True have r: "g w (lsd_id (the (w_latestScan w))) = Some y" by simp
      from IH[OF r] tr True show "lookupScan w (resolvedId w scanId) = y
        \<and> \<not> (resolvedId w scanId = ''latest'' \<and> w_latestScan w \<noteq> None)"
        by (auto simp: resolvedId_def split: if_splits)
    qed
  next
    case False
    with body show ?thesis by (auto simp: resolvedId_def)
  qed
qed


lemma resolvedId_store [simp]:
  "resolvedId (w\<lparr> w_scanStore := s \<rparr>) scanId = resolvedId w scanId"
  by (simp add: resolvedId_def cong: if_cong)






text \<open>A scan that can be read after \<open>fixIssue\<close> wrote its snapshot was read the same before.\<close>

lemma lookupScan_after_fix:
  assumes "lookupScan (w\<lparr> w_scanStore := (w_scanStore w)(scanId \<mapsto> FixedBlob v is) \<rparr>) k = Inr r"
  shows "lookupScan w k = Inr r"
  using assms
  by (auto simp: lookupScan_def split: option.splits if_splits Blob.splits)


lemma storedWorld_facts:
  "truthy (w_tenantId storedWorld)"
  "w_latestScan storedWorld = None"
  "w_currentScan storedWorld = None"
  "w_scanStore storedWorld ''scan_old'' = Some (ScanBlob fixedScan)"
  "ss_id (sd_summary fixedScan) = ''scan_old''"
  by (simp_all add: storedWorld_def exampleWorld_def truthy_def fixedScan_def exampleSummary_def)

lemma storedWorld_read:
  "getScanById storedWorld ''scan_old'' = Some (Inr (Some (scanView fixedScan)))"
  "getScanById (storedWorld\<lparr> w_currentScan := Some fixedScan \<rparr>) ''scan_old''
     = Some (Inr (Some (scanView fixedScan)))"
  by (simp_all add: getScanById_direct storedWorld_facts lookupScan_def)

lemma fixedScan_issues:
  "sv_issues (scanView fixedScan) = [issueView fixedIssue]"
  "iv_id (issueView fixedIssue) = ''mfa_disabled_1000''"
  "iv_status (issueView fixedIssue) = ''Fixed''"
  "sv_issuesFixed (scanView fixedScan) = 1"
  by (simp_all add: scanView_def fixedScan_def issueView_def fixedIssue_def orDefault_def)


text \<open>
  From storage alone, the snapshot that \<open>fixIssue\<close> wrote is not read back: its summary
  has no \<open>issueCountsBySeverity\<close>, and \<open>getScanById\<close> throws.
\<close>

lemma stored_read_after_fix_throws:
  "\<exists>w' e. fixIssue storedWorld ''scan_old'' ''mfa_disabled_1000'' = Some w'
     \<and> getScanById w' ''scan_old'' = Some (Inl e)"
proof -
  have f: "fixIssue storedWorld ''scan_old'' ''mfa_disabled_1000''
             = Some (storedWorld\<lparr> w_scanStore := (w_scanStore storedWorld)(''scan_old'' \<mapsto>
                          FixedBlob (scanView fixedScan)
                            (markFixed ''mfa_disabled_1000'' [issueView fixedIssue])) \<rparr>)"
    by (simp add: fixIssue_def storedWorld_read(1) fixedScan_issues Let_def)
  have g: "getScanById (storedWorld\<lparr> w_scanStore := (w_scanStore storedWorld)(''scan_old'' \<mapsto>
                          FixedBlob (scanView fixedScan)
                            (markFixed ''mfa_disabled_1000'' [issueView fixedIssue])) \<rparr>)
             ''scan_old'' = Some (Inl (TypeError ''Cannot read properties of undefined (reading High)''))"
    by (simp add: getScanById_direct storedWorld_facts lookupScan_def)
  show ?thesis using f g by blast
qed

text \<open>Fixing again changes nothing: the state after a fix is a fixed point of the same fix.\<close>

lemma getScanById_eq_lookup:
  assumes "truthy (w_tenantId w)"
    and "\<not> (resolvedId w scanId = ''latest'' \<and> w_latestScan w \<noteq> None)"
  shows "getScanById w scanId = Some (lookupScan w (resolvedId w scanId))"
proof (cases "scanId = ''latest'' \<and> w_latestScan w \<noteq> None")
  case True
  then have r: "resolvedId w scanId = lsd_id (the (w_latestScan w))" by (simp add: resolvedId_def)
  with assms(2) True have n: "lsd_id (the (w_latestScan w)) \<noteq> ''latest''" by auto
  have "getScanById w scanId = getScanById w (lsd_id (the (w_latestScan w)))"
    using assms(1) True by (subst getScanById.simps) simp
  also have "\<dots> = Some (lookupScan w (lsd_id (the (w_latestScan w))))"
    using assms(1) n by (simp add: getScanById_direct)
  finally show ?thesis by (simp add: r)
next
  case False
  then have "resolvedId w scanId = scanId" by (auto simp: resolvedId_def)
  with assms(1) False show ?thesis by (simp add: getScanById_direct)
qed

lemma getScanById_tenant:
  assumes "getScanById w scanId = Some (Inr (Some scan))"
  shows "truthy (w_tenantId w)"
proof (rule ccontr)
  assume "\<not> truthy (w_tenantId w)"
  then have "getScanById w scanId = Some (Inr None)" by (subst getScanById.simps) simp
  with assms show False by simp
qed

lemma fixIssue_idempotent:
  assumes "fixIssue w scanId issueId = Some w1"
  shows "fixIssue w1 scanId issueId = Some w1"
proof (cases "\<exists>scan x. getScanById w scanId = Some (Inr (Some scan))
                \<and> find (\<lambda>issue. iv_id issue = issueId) (sv_issues scan) = Some x")
  case False
  with assms have "w1 = w"
    by (auto simp: fixIssue_def split: option.splits sum.splits)
  with assms show ?thesis by simp
next
  case True
  then obtain scan x where g: "getScanById w scanId = Some (Inr (Some scan))"
    and x: "find (\<lambda>issue. iv_id issue = issueId) (sv_issues scan) = Some x" by blast
  let ?b = "FixedBlob scan (markFixed issueId (sv_issues scan))"
  have w1: "w1 = w\<lparr> w_scanStore := (w_scanStore w)(scanId \<mapsto> ?b) \<rparr>"
    using assms g x by (simp add: fixIssue_def Let_def)
  have tr: "truthy (w_tenantId w)" using g by (rule getScanById_tenant)
  let ?k = "resolvedId w scanId"
  from getScanById_resolved_aux[OF g] tr
  have lk: "lookupScan w ?k = Inr (Some scan)"
    and nk: "\<not> (?k = ''latest'' \<and> w_latestScan w \<noteq> None)" by blast+
  have g1: "getScanById w1 scanId = Some (lookupScan w1 ?k)"
    using getScanById_eq_lookup[of w1 scanId] tr nk by (simp add: w1)
  have same: "w1\<lparr> w_scanStore := (w_scanStore w1)(scanId \<mapsto> ?b) \<rparr> = w1"
    by (simp add: w1)
  show ?thesis
  proof (cases "lookupScan w1 ?k")
    case (Inl e)
    with g1 show ?thesis by (simp add: fixIssue_def)
  next
    case (Inr r)
    then have "lookupScan w ?k = Inr r" unfolding w1 by (rule lookupScan_after_fix)
    with lk have "r = Some scan" by simp
    with Inr g1 x same show ?thesis by (simp add: fixIssue_def Let_def)
  qed
qed

end
